theory Spec2Isabelle
  imports Complex_Main "HOL-Library.Word"
begin

section \<open>JavaScript values used by the components\<close>

text \<open>
  A JavaScript string is a sequence of UTF-16 code units. ASCII literals of the source are
  written with \<open>str\<close>.
\<close>

type_synonym jsstring = "16 word list"

definition str :: "string \<Rightarrow> jsstring" where
  "str s = map of_char s"

text \<open>
  \<open>String.prototype.trim\<close> removes the code units of the ECMAScript \<open>WhiteSpace\<close> and
  \<open>LineTerminator\<close> productions from both ends.
\<close>

definition isWhiteSpace :: "16 word \<Rightarrow> bool" where
  "isWhiteSpace c =
     (c \<in> {0x9, 0xA, 0xB, 0xC, 0xD, 0x20, 0xA0, 0x1680, 0x2028, 0x2029, 0x202F, 0x205F,
            0x3000, 0xFEFF}
      \<or> (0x2000 \<le> c \<and> c \<le> 0x200A))"

definition trim :: "jsstring \<Rightarrow> jsstring" where
  "trim s = rev (dropWhile isWhiteSpace (rev (dropWhile isWhiteSpace s)))"

text \<open>
  \<open>encodeURIComponent\<close> throws a \<open>URIError\<close> exactly when the string holds a surrogate
  code unit that is not part of a pair.
\<close>

definition isHighSurrogate :: "16 word \<Rightarrow> bool" where
  "isHighSurrogate c = (0xD800 \<le> c \<and> c \<le> 0xDBFF)"

definition isLowSurrogate :: "16 word \<Rightarrow> bool" where
  "isLowSurrogate c = (0xDC00 \<le> c \<and> c \<le> 0xDFFF)"

fun wellFormed :: "jsstring \<Rightarrow> bool" where
  "wellFormed [] = True"
| "wellFormed [c] = (\<not> isHighSurrogate c \<and> \<not> isLowSurrogate c)"
| "wellFormed (c # d # cs) =
     (if isHighSurrogate c then isLowSurrogate d \<and> wellFormed cs
      else \<not> isLowSurrogate c \<and> wellFormed (d # cs))"

text \<open>
  Numbers are IEEE doubles in the source; the model computes with rationals. The one place
  where a double can leave the rationals is a division, which is modelled with its three
  exceptional results.
\<close>

datatype number = Fin rat | NaN | Infinity | NegInfinity

definition js_div :: "rat \<Rightarrow> rat \<Rightarrow> number" where
  "js_div a b =
     (if b = 0 then (if a = 0 then NaN else if 0 < a then Infinity else NegInfinity)
      else Fin (a / b))"

text \<open>Decimal rendering of an integer, as \<open>Number.prototype.toString\<close> gives it.\<close>

function digits :: "int \<Rightarrow> string" where
  "digits n =
     (if n < 10 then [char_of (48 + n)] else digits (n div 10) @ [char_of (48 + n mod 10)])"
  by pat_completeness auto
termination
  by (relation "measure nat") auto

declare digits.simps [simp del]

definition toString :: "int \<Rightarrow> jsstring" where
  "toString i = (if i < 0 then str (CHR ''-'' # digits (- i)) else str (digits i))"

section \<open>TestRetrieval: the retrieval test harness\<close>

subsection \<open>Data\<close>

record RetrievalResult =
  title :: jsstring
  score :: rat
  content_preview :: jsstring

record test_config =
  limit :: rat
  min_similarity :: rat

datatype status = Success | Error | Pending

record TestResult =
  query :: jsstring
  results_count :: int
  results :: "RetrievalResult list"
  duration_seconds :: rat
  config :: test_config
  status :: status
  error :: "jsstring option"
  timestamp :: int

record TestScenario =
  id_scenario :: jsstring
  query_scenario :: jsstring
  expectedMatch :: "jsstring option"

text \<open>
  A JavaScript \<open>Map\<close> keeps its entries in insertion order; \<open>set\<close> on a key that is
  present replaces the value in place, \<open>delete\<close> drops the entry.
\<close>

type_synonym ('k, 'v) js_map = "('k \<times> 'v) list"

fun map_set :: "'k \<Rightarrow> 'v \<Rightarrow> ('k, 'v) js_map \<Rightarrow> ('k, 'v) js_map" where
  "map_set k v [] = [(k, v)]"
| "map_set k v ((k', v') # kvs) =
     (if k' = k then (k, v) # kvs else (k', v') # map_set k v kvs)"

definition map_delete :: "'k \<Rightarrow> ('k, 'v) js_map \<Rightarrow> ('k, 'v) js_map" where
  "map_delete k kvs = filter (\<lambda>kv. fst kv \<noteq> k) kvs"

definition map_get :: "('k, 'v) js_map \<Rightarrow> 'k \<Rightarrow> 'v option" where
  "map_get kvs k = map_of kvs k"

definition map_keys :: "('k, 'v) js_map \<Rightarrow> 'k list" where
  "map_keys kvs = map fst kvs"

definition map_values :: "('k, 'v) js_map \<Rightarrow> 'v list" where
  "map_values kvs = map snd kvs"

subsection \<open>Metrics, recomputed on every render from the results map\<close>

definition completedTests :: "(jsstring, TestResult) js_map \<Rightarrow> TestResult list" where
  "completedTests rs = filter (\<lambda>r. status r \<noteq> Pending) (map_values rs)"

definition successfulTests :: "(jsstring, TestResult) js_map \<Rightarrow> TestResult list" where
  "successfulTests rs =
     filter (\<lambda>r. status r = Success \<and> results_count r > 0) (completedTests rs)"

definition failedTests :: "(jsstring, TestResult) js_map \<Rightarrow> TestResult list" where
  "failedTests rs =
     filter (\<lambda>r. status r = Error \<or> results_count r = 0) (completedTests rs)"

text \<open>\<open>r.results[0]?.score || 0\<close>: the score of the first hit, 0 when there is none.\<close>

definition topScore :: "TestResult \<Rightarrow> rat" where
  "topScore r = (case results r of [] \<Rightarrow> 0 | x # _ \<Rightarrow> score x)"

definition avgDuration :: "(jsstring, TestResult) js_map \<Rightarrow> number" where
  "avgDuration rs =
     (if length (completedTests rs) > 0
      then js_div (foldl (\<lambda>sum r. sum + duration_seconds r) 0 (completedTests rs))
                  (of_nat (length (completedTests rs)))
      else Fin 0)"

definition avgScore :: "(jsstring, TestResult) js_map \<Rightarrow> number" where
  "avgScore rs =
     (if length (successfulTests rs) > 0
      then js_div (foldl (\<lambda>sum r. sum + topScore r) 0 (successfulTests rs))
                  (of_nat (length (successfulTests rs)))
      else Fin 0)"

text \<open>The arithmetic mean, as the specification words it.\<close>

definition mean :: "rat list \<Rightarrow> rat" where
  "mean xs = sum_list xs / of_nat (length xs)"

subsection \<open>The network and the clock\<close>

text \<open>
  What a request can come to: the \<open>fetch\<close> promise rejects (with the message of the
  error), or a response with a status arrives, whose body either fails to parse as JSON
  (\<open>response.json()\<close> rejects with that message) or parses. The environment also
  decides how many milliseconds pass until the request has settled.
\<close>

datatype 'a body = Unparseable jsstring | Parsed 'a

datatype 'a fetch_outcome = Rejects jsstring | Responds nat "'a body"

record 'a net_reply =
  elapsed :: nat
  outcome :: "'a fetch_outcome"

definition ok :: "nat \<Rightarrow> bool" where
  "ok st = (200 \<le> st \<and> st \<le> 299)"

record retrieval_data =
  data_results_count :: int
  data_results :: "RetrievalResult list"
  data_duration_seconds :: rat
  data_config :: test_config

datatype toast = ToastSuccess jsstring | ToastError jsstring

text \<open>
  A JSON document. \<open>JSON.stringify\<close> writes a value built from strings, finite numbers,
  arrays and objects, and \<open>JSON.parse\<close> reads the same value back from that text, so a
  document is modelled by the value it denotes.
\<close>

datatype json =
  JNull
| JBool bool
| JNumber rat
| JString jsstring
| JArray "json list"
| JObject "(jsstring \<times> json) list"

text \<open>
  The observable history of a component: requests of the harness leaving and settling,
  progress updates, requests of the other components (method, path below the backend's base
  URL, body; \<open>JNull\<close> when there is none), toasts and file downloads, in the order in
  which they happen. \<open>now\<close> is what \<open>Date.now()\<close> reads.
\<close>

datatype event =
  RequestStarted jsstring
| RequestSettled jsstring
| ProgressSet rat
| Requested jsstring jsstring json
| Toasted toast
| Downloaded jsstring json

record world =
  now :: int
  events :: "event list"

subsection \<open>The component state and its handlers\<close>

record TestRetrieval =
  scenarios :: "TestScenario list"
  resultsMap :: "(jsstring, TestResult) js_map"
  newQuery :: jsstring
  singleQuery :: jsstring
  singleResult :: "TestResult option"
  isRunningAll :: bool
  isRunningSingle :: bool
  progress :: rat

text \<open>
  The body of the \<open>try\<close> block of \<open>runSingleTest\<close>: \<open>Inl\<close> is a thrown error with its
  message. Building the URL throws before any request leaves when the query is not
  well-formed UTF-16.
\<close>

definition runSingleTest_try ::
  "jsstring \<Rightarrow> retrieval_data net_reply \<Rightarrow> world \<Rightarrow> (jsstring + TestResult) \<times> world" where
  "runSingleTest_try q rp w =
     (if \<not> wellFormed q then (Inl (str ''URI malformed''), w)
      else
        let w1 = w\<lparr>events := events w @ [RequestStarted q]\<rparr>;
            w2 = w1\<lparr>now := now w1 + int (elapsed rp),
                    events := events w1 @ [RequestSettled q]\<rparr>
        in case outcome rp of
             Rejects msg \<Rightarrow> (Inl msg, w2)
           | Responds st b \<Rightarrow>
               if \<not> ok st then (Inl (str ''HTTP '' @ toString (int st)), w2)
               else (case b of
                       Unparseable msg \<Rightarrow> (Inl msg, w2)
                     | Parsed data \<Rightarrow>
                         (Inr \<lparr>query = q,
                               results_count = data_results_count data,
                               results = data_results data,
                               duration_seconds = data_duration_seconds data,
                               config = data_config data,
                               status = Success,
                               error = None,
                               timestamp = now w2\<rparr>, w2)))"

definition runSingleTest ::
  "jsstring \<Rightarrow> retrieval_data net_reply \<Rightarrow> world \<Rightarrow> TestResult \<times> world" where
  "runSingleTest q rp w =
     (let startTime = now w in
      case runSingleTest_try q rp w of
        (Inr r, w') \<Rightarrow> (r, w')
      | (Inl msg, w') \<Rightarrow>
          (\<lparr>query = q,
            results_count = 0,
            results = [],
            duration_seconds = of_int (now w' - startTime) / 1000,
            config = \<lparr>limit = 5, min_similarity = 1 / 4\<rparr>,
            status = Error,
            error = Some msg,
            timestamp = now w'\<rparr>, w'))"

text \<open>
  The \<open>for\<close> loop of \<open>handleRunAll\<close>. \<open>net i q\<close> is what the network does with the
  request of iteration \<open>i\<close>. The \<open>await\<close> makes the next iteration start after the
  request of this one has settled. Inside the loop the list is not empty, so the division
  of the progress is one of rationals.
\<close>

function runAll_loop ::
  "(nat \<Rightarrow> jsstring \<Rightarrow> retrieval_data net_reply) \<Rightarrow> TestScenario list \<Rightarrow> nat \<Rightarrow>
   (jsstring, TestResult) js_map \<Rightarrow> TestRetrieval \<Rightarrow> world \<Rightarrow> TestRetrieval \<times> world" where
  "runAll_loop net scs i newResults st w =
     (if i < length scs then
        let scenario = scs ! i;
            rw = runSingleTest (query_scenario scenario) (net i (query_scenario scenario)) w;
            newResults' = map_set (id_scenario scenario) (fst rw) newResults;
            p = (of_nat (i + 1) / of_nat (length scs)) * 100;
            st' = st\<lparr>resultsMap := newResults', progress := p\<rparr>;
            w' = (snd rw)\<lparr>events := events (snd rw) @ [ProgressSet p]\<rparr>
        in runAll_loop net scs (i + 1) newResults' st' w'
      else (st, w))"
  by pat_completeness auto
termination
  by (relation "measure (\<lambda>(net, scs, i, newResults, st, w). length scs - i)") auto

declare runAll_loop.simps [simp del]

definition handleRunAll ::
  "(nat \<Rightarrow> jsstring \<Rightarrow> retrieval_data net_reply) \<Rightarrow> TestRetrieval \<Rightarrow> world \<Rightarrow> TestRetrieval \<times> world" where
  "handleRunAll net st w =
     (let st1 = st\<lparr>isRunningAll := True, progress := 0\<rparr>;
          sw = runAll_loop net (scenarios st) 0 [] st1 w;
          st2 = (fst sw)\<lparr>isRunningAll := False\<rparr>;
          w2 = (snd sw)\<lparr>events := events (snd sw) @
                 [Toasted (ToastSuccess (str ''Completed '' @
                    toString (int (length (scenarios st))) @ str '' tests''))]\<rparr>
      in (st2, w2))"

definition handleRemoveScenario :: "jsstring \<Rightarrow> TestRetrieval \<Rightarrow> TestRetrieval" where
  "handleRemoveScenario i st =
     st\<lparr>scenarios := filter (\<lambda>s. id_scenario s \<noteq> i) (scenarios st),
        resultsMap := map_delete i (resultsMap st)\<rparr>"

text \<open>
  \<open>handleAddScenario\<close>: the id of the new scenario is the reading of the clock, and no
  check is made that it is not in use.
\<close>

definition handleAddScenario :: "TestRetrieval \<Rightarrow> world \<Rightarrow> TestRetrieval \<times> world" where
  "handleAddScenario st w =
     (if trim (newQuery st) = [] then
        (st, w\<lparr>events := events w @ [Toasted (ToastError (str ''Please enter a query''))]\<rparr>)
      else
        let newScenario = \<lparr>id_scenario = toString (now w),
                           query_scenario = trim (newQuery st),
                           expectedMatch = None\<rparr>
        in (st\<lparr>scenarios := scenarios st @ [newScenario], newQuery := []\<rparr>,
            w\<lparr>events := events w @ [Toasted (ToastSuccess (str ''Scenario added''))]\<rparr>))"

subsection \<open>Sample data\<close>

text \<open>Two results of a run: one query with a hit scored 0.8, one request that failed.\<close>

definition hit_result :: TestResult where
  "hit_result =
     \<lparr>query = str ''what is AI?'', results_count = 1,
      results = [\<lparr>title = str ''AI'', score = 4 / 5, content_preview = str ''AI is''\<rparr>],
      duration_seconds = 1 / 2, config = \<lparr>limit = 5, min_similarity = 1 / 4\<rparr>,
      status = Success, error = None, timestamp = 1000\<rparr>"

definition failed_result :: TestResult where
  "failed_result =
     \<lparr>query = str ''machine learning'', results_count = 0, results = [],
      duration_seconds = 3 / 2, config = \<lparr>limit = 5, min_similarity = 1 / 4\<rparr>,
      status = Error, error = Some (str ''HTTP 500''), timestamp = 2500\<rparr>"

definition two_results :: "(jsstring, TestResult) js_map" where
  "two_results = [(str ''4'', hit_result), (str ''5'', failed_result)]"

text \<open>A request fails when the fetch rejects, the status is not 2xx, or the body does not parse.\<close>

definition failed :: "'a net_reply \<Rightarrow> bool" where
  "failed rp =
     (case outcome rp of
        Rejects msg \<Rightarrow> True
      | Responds st b \<Rightarrow> \<not> ok st \<or> (case b of Unparseable msg \<Rightarrow> True | Parsed d \<Rightarrow> False))"

text \<open>
  What iteration \<open>j\<close> of a batch of \<open>N\<close> adds to the history: the request leaves and
  settles (unless building its URL threw), then the progress is set.
\<close>

definition iteration_events :: "nat \<Rightarrow> nat \<Rightarrow> jsstring \<Rightarrow> event list" where
  "iteration_events N j q =
     (if wellFormed q then [RequestStarted q, RequestSettled q] else [])
     @ [ProgressSet (of_nat (j + 1) / of_nat N * 100)]"

definition completed_toast :: "nat \<Rightarrow> event" where
  "completed_toast N =
     Toasted (ToastSuccess (str ''Completed '' @ toString (int N) @ str '' tests''))"

definition DEFAULT_SCENARIOS :: "TestScenario list" where
  "DEFAULT_SCENARIOS =
     [\<lparr>id_scenario = str ''1'', query_scenario = str ''siapa Arifian?'',
       expectedMatch = Some (str ''Arifian'')\<rparr>,
      \<lparr>id_scenario = str ''2'', query_scenario = str ''apakah Arifian masih kuliah?'',
       expectedMatch = Some (str ''kuliah'')\<rparr>,
      \<lparr>id_scenario = str ''3'', query_scenario = str ''apa pekerjaan Arifian?'',
       expectedMatch = Some (str ''pekerjaan'')\<rparr>,
      \<lparr>id_scenario = str ''4'', query_scenario = str ''what is AI?'',
       expectedMatch = Some (str ''AI'')\<rparr>,
      \<lparr>id_scenario = str ''5'', query_scenario = str ''machine learning'',
       expectedMatch = Some (str ''learning'')\<rparr>]"

text \<open>The state of the component when it mounts.\<close>

definition initial_TestRetrieval :: TestRetrieval where
  "initial_TestRetrieval =
     \<lparr>scenarios = DEFAULT_SCENARIOS, resultsMap = [], newQuery = [], singleQuery = [],
      singleResult = None, isRunningAll = False, isRunningSingle = False, progress = 0\<rparr>"

definition net_up :: "nat \<Rightarrow> jsstring \<Rightarrow> retrieval_data net_reply" where
  "net_up i q =
     \<lparr>elapsed = 120,
      outcome = Responds 200 (Parsed
        \<lparr>data_results_count = 1,
         data_results = [\<lparr>title = q, score = 3 / 5, content_preview = q\<rparr>],
         data_duration_seconds = 1 / 10,
         data_config = \<lparr>limit = 5, min_similarity = 1 / 4\<rparr>\<rparr>)\<rparr>"

definition net_down :: "nat \<Rightarrow> jsstring \<Rightarrow> retrieval_data net_reply" where
  "net_down i q = \<lparr>elapsed = 30, outcome = Rejects (str ''Failed to fetch'')\<rparr>"

definition world_start :: world where
  "world_start = \<lparr>now = 1700000000000, events = []\<rparr>"

text \<open>
  Two scenarios are added while the clock shows the same millisecond: the user types
  \<open>a\<close>, adds it, types \<open>b\<close>, adds it.
\<close>

definition added_twice :: "TestRetrieval \<times> world" where
  "added_twice =
     (let sw1 = handleAddScenario (initial_TestRetrieval\<lparr>newQuery := str ''a''\<rparr>) world_start
      in handleAddScenario ((fst sw1)\<lparr>newQuery := str ''b''\<rparr>) (snd sw1))"

subsection \<open>Export\<close>

text \<open>\<open>JSON.stringify\<close> writes a number that is not finite as \<open>null\<close>.\<close>

definition number_json :: "number \<Rightarrow> json" where
  "number_json x = (case x of Fin r \<Rightarrow> JNumber r | _ \<Rightarrow> JNull)"

definition status_json :: "status \<Rightarrow> json" where
  "status_json s =
     (case s of Success \<Rightarrow> JString (str ''success'')
      | Error \<Rightarrow> JString (str ''error'')
      | Pending \<Rightarrow> JString (str ''pending''))"

definition RetrievalResult_json :: "RetrievalResult \<Rightarrow> json" where
  "RetrievalResult_json r =
     JObject [(str ''title'', JString (title r)),
              (str ''score'', JNumber (score r)),
              (str ''content_preview'', JString (content_preview r))]"

text \<open>
  The properties of a result object, in the order in which \<open>runSingleTest\<close> creates
  them; a \<open>Date\<close> is written as its ISO string, which the platform computes.
\<close>

definition TestResult_properties :: "(int \<Rightarrow> jsstring) \<Rightarrow> TestResult \<Rightarrow> (jsstring \<times> json) list" where
  "TestResult_properties toISOString r =
     [(str ''query'', JString (query r)),
      (str ''results_count'', JNumber (of_int (results_count r))),
      (str ''results'', JArray (map RetrievalResult_json (results r))),
      (str ''duration_seconds'', JNumber (duration_seconds r)),
      (str ''config'', JObject [(str ''limit'', JNumber (limit (config r))),
                                (str ''min_similarity'', JNumber (min_similarity (config r)))]),
      (str ''status'', status_json (status r))]
     @ (case error r of None \<Rightarrow> [] | Some msg \<Rightarrow> [(str ''error'', JString msg)])
     @ [(str ''timestamp'', JString (toISOString (timestamp r)))]"

definition export_data :: "(int \<Rightarrow> jsstring) \<Rightarrow> TestRetrieval \<Rightarrow> world \<Rightarrow> json" where
  "export_data toISOString st w =
     JObject
       [(str ''timestamp'', JString (toISOString (now w))),
        (str ''metrics'',
           JObject
             [(str ''total_tests'', JNumber (of_nat (length (completedTests (resultsMap st))))),
              (str ''successful'', JNumber (of_nat (length (successfulTests (resultsMap st))))),
              (str ''failed'', JNumber (of_nat (length (failedTests (resultsMap st))))),
              (str ''avg_duration'', number_json (avgDuration (resultsMap st))),
              (str ''avg_score'', number_json (avgScore (resultsMap st)))]),
        (str ''results'',
           JArray (map (\<lambda>(i, result).
                          JObject ((str ''scenario_id'', JString i)
                                   # TestResult_properties toISOString result))
                       (resultsMap st)))]"

definition exportResults :: "(int \<Rightarrow> jsstring) \<Rightarrow> TestRetrieval \<Rightarrow> world \<Rightarrow> TestRetrieval \<times> world" where
  "exportResults toISOString st w =
     (let data = export_data toISOString st w;
          download = str ''retrieval-test-''
                     @ takeWhile (\<lambda>c. c \<noteq> of_char CHR ''T'') (toISOString (now w))
                     @ str ''.json''
      in (st, w\<lparr>events := events w @ [Downloaded download data,
                                       Toasted (ToastSuccess (str ''Results exported''))]\<rparr>))"

text \<open>Reading the exported document back: property access on the parsed value.\<close>

fun member :: "string \<Rightarrow> json \<Rightarrow> json option" where
  "member k (JObject kvs) = map_of kvs (str k)"
| "member k _ = None"

definition read_string :: "string \<Rightarrow> json \<Rightarrow> jsstring option" where
  "read_string k j = (case member k j of Some (JString s) \<Rightarrow> Some s | _ \<Rightarrow> None)"

definition read_number :: "string \<Rightarrow> json \<Rightarrow> rat option" where
  "read_number k j = (case member k j of Some (JNumber x) \<Rightarrow> Some x | _ \<Rightarrow> None)"

definition read_results :: "json \<Rightarrow> json list option" where
  "read_results doc = (case member ''results'' doc of Some (JArray rs) \<Rightarrow> Some rs | _ \<Rightarrow> None)"

definition read_scenario_ids :: "json \<Rightarrow> jsstring option list" where
  "read_scenario_ids doc =
     (case read_results doc of None \<Rightarrow> [] | Some rs \<Rightarrow> map (read_string ''scenario_id'') rs)"

definition read_results_counts :: "json \<Rightarrow> rat option list" where
  "read_results_counts doc =
     (case read_results doc of None \<Rightarrow> [] | Some rs \<Rightarrow> map (read_number ''results_count'') rs)"

definition read_metric :: "string \<Rightarrow> json \<Rightarrow> rat option" where
  "read_metric k doc = (case member ''metrics'' doc of None \<Rightarrow> None | Some m \<Rightarrow> read_number k m)"

definition isRequest :: "event \<Rightarrow> bool" where
  "isRequest e =
     (case e of RequestStarted q \<Rightarrow> True | RequestSettled q \<Rightarrow> True
      | Requested m u b \<Rightarrow> True | _ \<Rightarrow> False)"

text \<open>A stand-in for \<open>Date.prototype.toISOString\<close> on one instant.\<close>

definition iso_sample :: "int \<Rightarrow> jsstring" where
  "iso_sample t = str ''2023-11-14T22:13:20.000Z''"

section \<open>The chat components\<close>

subsection \<open>What both use\<close>

datatype role = User | Assistant

record FileInfo =
  filename :: jsstring
  cloudinary_url :: "jsstring option"

record SourceDoc =
  id_source :: jsstring
  title_source :: jsstring
  content_source :: jsstring
  similarity_score :: rat
  file_info :: "FileInfo option"

text \<open>
  The parsed body of a response of \<open>POST /chat\<close>, with the properties that the two
  components read: the error envelope (\<open>error\<close> as its truth value, \<open>error_type\<close>,
  \<open>message\<close>, \<open>details\<close> with its \<open>step\<close>) and the answer.
\<close>

record chat_data =
  body_error :: bool
  body_error_type :: "jsstring option"
  body_message :: "jsstring option"
  body_details :: "jsstring option option"
  body_response :: jsstring
  body_sources :: "SourceDoc list option"
  body_duration_seconds :: rat
  body_api_duration_seconds :: rat

text \<open>\<open>a || b\<close> on a string that may be missing: a missing or empty \<open>a\<close> is falsy.\<close>

definition or_else :: "jsstring option \<Rightarrow> jsstring \<Rightarrow> jsstring" where
  "or_else a b = (case a of None \<Rightarrow> b | Some s \<Rightarrow> if s = [] then b else s)"

subsection \<open>GroqChat\<close>

record Message =
  role :: role
  content :: jsstring
  sources :: "SourceDoc list option"
  duration :: "rat option"
  apiDuration :: "rat option"
  timestamp_message :: int

record GroqChat =
  messages :: "Message list"
  input :: jsstring
  isLoading :: bool
  isHealthy :: "bool option"
  modelInfo :: jsstring

text \<open>The history of the request: one object with a single property for every message.\<close>

definition history_groq :: "Message list \<Rightarrow> json list" where
  "history_groq ms =
     map (\<lambda>msg. JObject [(if role msg = User then str ''user'' else str ''assistant'',
                           JString (content msg))]) ms"

text \<open>The \<open>try\<close> block of \<open>sendMessage\<close> after the request has left.\<close>

definition sendMessage_try :: "chat_data net_reply \<Rightarrow> jsstring + chat_data" where
  "sendMessage_try rp =
     (case outcome rp of
        Rejects msg \<Rightarrow> Inl msg
      | Responds st b \<Rightarrow>
          if \<not> ok st then
            (case b of
               Unparseable msg \<Rightarrow> Inl msg
             | Parsed errorData \<Rightarrow>
                 Inl (or_else (body_message errorData) (str ''HTTP '' @ toString (int st))))
          else
            (case b of
               Unparseable msg \<Rightarrow> Inl msg
             | Parsed data \<Rightarrow> Inr data))"

definition sendMessage :: "chat_data net_reply \<Rightarrow> GroqChat \<Rightarrow> world \<Rightarrow> GroqChat \<times> world" where
  "sendMessage rp st w =
     (if trim (input st) = [] \<or> isLoading st then (st, w)
      else
        let userMessage = \<lparr>role = User, content = trim (input st), sources = None,
                            duration = None, apiDuration = None, timestamp_message = now w\<rparr>;
            st1 = st\<lparr>messages := messages st @ [userMessage], input := [], isLoading := True\<rparr>;
            history = history_groq (messages st);
            w1 = w\<lparr>events := events w @
                   [Requested (str ''POST'') (str ''/chat'')
                      (JObject [(str ''message'', JString (content userMessage)),
                                (str ''history'', JArray history)])]\<rparr>;
            w2 = w1\<lparr>now := now w1 + int (elapsed rp)\<rparr>
        in case sendMessage_try rp of
             Inr data \<Rightarrow>
               let assistantMessage =
                     \<lparr>role = Assistant, content = body_response data,
                      sources = body_sources data,
                      duration = Some (body_duration_seconds data),
                      apiDuration = Some (body_api_duration_seconds data),
                      timestamp_message = now w2\<rparr>
               in (st1\<lparr>messages := messages st1 @ [assistantMessage], isLoading := False\<rparr>, w2)
           | Inl errorMessage \<Rightarrow>
               (st1\<lparr>messages := butlast (messages st1), isLoading := False\<rparr>,
                w2\<lparr>events := events w2 @
                   [Toasted (ToastError (str ''Failed to send message: '' @ errorMessage))]\<rparr>))"

definition clearChat :: "GroqChat \<Rightarrow> world \<Rightarrow> GroqChat \<times> world" where
  "clearChat st w =
     (st\<lparr>messages := []\<rparr>,
      w\<lparr>events := events w @ [Toasted (ToastSuccess (str ''Chat cleared''))]\<rparr>)"

subsection \<open>Chat\<close>

record ChatMessage =
  id_message :: jsstring
  type_message :: role
  content_message :: jsstring
  timestamp_chat :: int
  sources_message :: "SourceDoc list option"

record ChatHistoryItem =
  user :: jsstring
  assistant :: jsstring

definition ChatHistoryItem_json :: "ChatHistoryItem \<Rightarrow> json" where
  "ChatHistoryItem_json h =
     JObject [(str ''user'', JString (user h)), (str ''assistant'', JString (assistant h))]"

record Chat =
  message :: jsstring
  messages_chat :: "ChatMessage list"
  isLoading_chat :: bool
  error_chat :: "jsstring option"
  sources_chat :: "SourceDoc list"
  isClearDialogOpen :: bool
  isInfoDialogOpen :: bool
  selectedSource :: "SourceDoc option"
  isSourceModalOpen :: bool

text \<open>
  The browser's local storage holds texts. The text that \<open>JSON.stringify\<close> writes for a
  transcript is read back by \<open>JSON.parse\<close> and the \<open>map\<close> of the load effect as that
  transcript; \<open>Other\<close> is any other text: the empty one, which the load effect skips, or
  one on which the parse or the \<open>map\<close> throws.
\<close>

datatype stored = Transcript "ChatMessage list" | Other jsstring

record browser = world +
  localStorage :: "jsstring \<Rightarrow> stored option"

definition chatHistory :: jsstring where
  "chatHistory = str ''chatHistory''"

text \<open>
  The loop that converts the transcript: it looks at the messages at \<open>i\<close> and \<open>i + 1\<close>
  for \<open>i = 0, 2, 4, \<dots>\<close>; \<open>messages[i + 1]\<close> is undefined, hence falsy, past the end.
\<close>

function history_loop :: "ChatMessage list \<Rightarrow> nat \<Rightarrow> ChatHistoryItem list \<Rightarrow> ChatHistoryItem list" where
  "history_loop msgs i history =
     (if i < length msgs then
        history_loop msgs (i + 2)
          (if i + 1 < length msgs \<and> type_message (msgs ! i) = User
              \<and> type_message (msgs ! (i + 1)) = Assistant
           then history @ [\<lparr>user = content_message (msgs ! i),
                             assistant = content_message (msgs ! (i + 1))\<rparr>]
           else history)
      else history)"
  by pat_completeness auto
termination
  by (relation "measure (\<lambda>(msgs, i, history). length msgs - i)") auto

declare history_loop.simps [simp del]

text \<open>The \<open>try\<close> block of \<open>handleSubmit\<close> after the request has left.\<close>

definition handleSubmit_try :: "chat_data net_reply \<Rightarrow> jsstring + chat_data" where
  "handleSubmit_try rp =
     (case outcome rp of
        Rejects msg \<Rightarrow> Inl msg
      | Responds st b \<Rightarrow>
          (case b of
             Unparseable msg \<Rightarrow> Inl msg
           | Parsed data \<Rightarrow>
               if body_error data then
                 Inl (str ''['' @ or_else (body_error_type data) (str ''ERROR'') @ str ''] ''
                      @ (case body_message data of None \<Rightarrow> str ''undefined'' | Some m \<Rightarrow> m)
                      @ (case body_details data of
                           None \<Rightarrow> []
                         | Some step \<Rightarrow>
                             [0xA, 0xA] @ str ''Step: '' @ or_else step (str ''unknown'')))
               else if \<not> ok st then Inl (str ''HTTP error! status: '' @ toString (int st))
               else Inr data))"

text \<open>
  The effect that saves the transcript runs after every render in which \<open>messages\<close> has
  changed; the effect that loads it runs once, after the first render.
\<close>

definition save_effect :: "Chat \<Rightarrow> browser \<Rightarrow> browser" where
  "save_effect st w =
     (if length (messages_chat st) > 0
      then w\<lparr>localStorage := (localStorage w)(chatHistory \<mapsto> Transcript (messages_chat st))\<rparr>
      else w)"

definition load_effect :: "Chat \<Rightarrow> browser \<Rightarrow> Chat" where
  "load_effect st w =
     (case localStorage w chatHistory of
        Some (Transcript ms) \<Rightarrow> st\<lparr>messages_chat := ms\<rparr>
      | _ \<Rightarrow> st)"

definition initial_Chat :: Chat where
  "initial_Chat =
     \<lparr>message = [], messages_chat = [], isLoading_chat = False, error_chat = None,
      sources_chat = [], isClearDialogOpen = False, isInfoDialogOpen = False,
      selectedSource = None, isSourceModalOpen = False\<rparr>"

text \<open>
  Mounting: after the first render the load effect and the save effect run, in this order,
  on the initial state; the messages that the load effect sets are rendered, and the save
  effect runs again on them.
\<close>

definition mount :: "browser \<Rightarrow> Chat \<times> browser" where
  "mount w =
     (let st1 = load_effect initial_Chat w;
          w1 = save_effect initial_Chat w
      in (st1, save_effect st1 w1))"

definition handleSubmit :: "chat_data net_reply \<Rightarrow> Chat \<Rightarrow> browser \<Rightarrow> Chat \<times> browser" where
  "handleSubmit rp st w =
     (if trim (message st) = [] \<or> isLoading_chat st then (st, w)
      else
        let userMessage = trim (message st);
            userMessageObj = \<lparr>id_message = toString (now w), type_message = User,
                               content_message = userMessage, timestamp_chat = now w,
                               sources_message = None\<rparr>;
            st1 = st\<lparr>messages_chat := messages_chat st @ [userMessageObj], message := [],
                      isLoading_chat := True, error_chat := None\<rparr>;
            history = history_loop (messages_chat st) 0 [];
            requestBody = JObject [(str ''message'', JString userMessage),
                                   (str ''history'', JArray (map ChatHistoryItem_json history))];
            w1 = save_effect st1
                   (w\<lparr>events := events w @ [Requested (str ''POST'') (str ''/chat'') requestBody]\<rparr>);
            w2 = w1\<lparr>now := now w1 + int (elapsed rp)\<rparr>
        in case handleSubmit_try rp of
             Inr data \<Rightarrow>
               let assistantMessageObj =
                     \<lparr>id_message = toString (now w2 + 1), type_message = Assistant,
                      content_message = body_response data, timestamp_chat = now w2,
                      sources_message =
                        Some (case body_sources data of None \<Rightarrow> [] | Some ss \<Rightarrow> ss)\<rparr>;
                   st2 = st1\<lparr>messages_chat := messages_chat st1 @ [assistantMessageObj],
                             sources_chat := (case body_sources data of None \<Rightarrow> [] | Some ss \<Rightarrow> ss),
                             isLoading_chat := False\<rparr>
               in (st2, save_effect st2 w2)
           | Inl errorMessage \<Rightarrow>
               (st1\<lparr>error_chat := Some errorMessage, isLoading_chat := False\<rparr>, w2))"

definition confirmClearHistory :: "Chat \<Rightarrow> browser \<Rightarrow> Chat \<times> browser" where
  "confirmClearHistory st w =
     (let st1 = st\<lparr>messages_chat := [], sources_chat := [], error_chat := None,
                    isClearDialogOpen := False\<rparr>;
          w1 = w\<lparr>localStorage := (localStorage w)(chatHistory := None)\<rparr>
      in (st1, save_effect st1 w1))"

text \<open>A send fails in \<open>Chat\<close> also when a body that parses carries the error envelope.\<close>

definition failed_chat :: "chat_data net_reply \<Rightarrow> bool" where
  "failed_chat rp =
     (case outcome rp of
        Rejects msg \<Rightarrow> True
      | Responds st b \<Rightarrow>
          (case b of Unparseable msg \<Rightarrow> True | Parsed data \<Rightarrow> body_error data \<or> \<not> ok st))"

text \<open>Consecutive pairs of a list: the first with the second, the third with the fourth, \<dots>\<close>

fun pairs :: "'a list \<Rightarrow> ('a \<times> 'a) list" where
  "pairs (a # b # xs) = (a, b) # pairs xs"
| "pairs xs = []"

definition user_then_assistant :: "ChatMessage \<times> ChatMessage \<Rightarrow> bool" where
  "user_then_assistant p = (type_message (fst p) = User \<and> type_message (snd p) = Assistant)"

definition turn_pair :: "ChatMessage \<times> ChatMessage \<Rightarrow> ChatHistoryItem" where
  "turn_pair p = \<lparr>user = content_message (fst p), assistant = content_message (snd p)\<rparr>"

subsection \<open>Sample conversations\<close>

definition net_rejects :: "chat_data net_reply" where
  "net_rejects = \<lparr>elapsed = 40, outcome = Rejects (str ''Failed to fetch'')\<rparr>"

definition answer :: chat_data where
  "answer =
     \<lparr>body_error = False, body_error_type = None, body_message = None, body_details = None,
      body_response = str ''hello'', body_sources = Some [], body_duration_seconds = 1,
      body_api_duration_seconds = 1 / 2\<rparr>"

definition net_answers :: "chat_data net_reply" where
  "net_answers = \<lparr>elapsed = 900, outcome = Responds 200 (Parsed answer)\<rparr>"

definition groq_start :: GroqChat where
  "groq_start =
     \<lparr>messages = [], input = str ''hi'', isLoading = False, isHealthy = Some True,
      modelInfo = str ''llama-3.3-70b-versatile''\<rparr>"

definition browser_start :: browser where
  "browser_start = \<lparr>now = 1700000000000, events = [], localStorage = Map.empty\<rparr>"

definition chat_start :: Chat where
  "chat_start = initial_Chat\<lparr>message := str ''hi''\<rparr>"

section \<open>Confessions\<close>

subsection \<open>Data and state\<close>

record Confession =
  id_confession :: jsstring
  message_confession :: jsstring
  ipAddress :: jsstring
  reply :: "jsstring option"
  replyCreatedAt :: "jsstring option"
  isReplied :: bool
  createdAt :: jsstring

record Stats =
  total :: int
  replied :: int
  notReplied :: int

record Confessions =
  confessions :: "Confession list"
  stats :: Stats
  loading :: bool
  actionLoading :: bool
  selectedConfession :: "Confession option"
  replyText :: jsstring
  editedMessage :: jsstring
  isReplyDialogOpen :: bool
  isViewDialogOpen :: bool
  isEditDialogOpen :: bool
  isDeleteDialogOpen :: bool
  isDeleteReplyDialogOpen :: bool
  filter_state :: jsstring

subsection \<open>Fetching the list and the statistics\<close>

text \<open>
  Every request of this component carries the bearer token of the local storage in its
  headers; the headers are left out of the history. A fetch that is called without
  \<open>await\<close> is modelled in two steps: the part that runs at once, up to the request leaving,
  and the part that runs when the request has settled. The component does not read the
  clock.
\<close>

definition responded_ok :: "'a net_reply \<Rightarrow> bool" where
  "responded_ok rp = (case outcome rp of Rejects msg \<Rightarrow> False | Responds st b \<Rightarrow> ok st)"

text \<open>\<open>if (!response.ok) throw \<dots>; const data = await response.json()\<close>\<close>

definition get_json :: "jsstring \<Rightarrow> 'a net_reply \<Rightarrow> jsstring + 'a" where
  "get_json not_ok rp =
     (case outcome rp of
        Rejects msg \<Rightarrow> Inl msg
      | Responds st b \<Rightarrow>
          if \<not> ok st then Inl not_ok
          else (case b of Unparseable msg \<Rightarrow> Inl msg | Parsed data \<Rightarrow> Inr data))"

definition confessions_path :: "jsstring \<Rightarrow> jsstring" where
  "confessions_path flt =
     str ''/confessions/''
     @ (if flt \<noteq> str ''all''
        then str ''?is_replied='' @ (if flt = str ''replied'' then str ''true'' else str ''false'')
        else [])"

definition fetchConfessions_start :: "Confessions \<Rightarrow> world \<Rightarrow> Confessions \<times> world" where
  "fetchConfessions_start st w =
     (st\<lparr>loading := True\<rparr>,
      w\<lparr>events := events w @
           [Requested (str ''GET'') (confessions_path (filter_state st)) JNull]\<rparr>)"

definition fetchConfessions_settle ::
  "Confession list net_reply \<Rightarrow> Confessions \<Rightarrow> world \<Rightarrow> Confessions \<times> world" where
  "fetchConfessions_settle rp st w =
     (case get_json (str ''Failed to fetch confessions'') rp of
        Inr data \<Rightarrow> (st\<lparr>confessions := data, loading := False\<rparr>, w)
      | Inl msg \<Rightarrow>
          (st\<lparr>loading := False\<rparr>,
           w\<lparr>events := events w @ [Toasted (ToastError (str ''Failed to load confessions''))]\<rparr>))"

definition fetchStats_start :: "Confessions \<Rightarrow> world \<Rightarrow> Confessions \<times> world" where
  "fetchStats_start st w =
     (st, w\<lparr>events := events w @
               [Requested (str ''GET'') (str ''/confessions/stats/summary'') JNull]\<rparr>)"

definition fetchStats_settle ::
  "Stats net_reply \<Rightarrow> Confessions \<Rightarrow> world \<Rightarrow> Confessions \<times> world" where
  "fetchStats_settle rp st w =
     (case get_json (str ''Failed to fetch stats'') rp of
        Inr data \<Rightarrow> (st\<lparr>stats := data\<rparr>, w)
      | Inl msg \<Rightarrow> (st, w))"

subsection \<open>The mutating actions\<close>

text \<open>
  Each handler is given what its one request comes to. On success it closes its dialog and
  starts the refetches, which it does not await; the \<open>finally\<close> block then clears
  \<open>actionLoading\<close>.
\<close>

definition handleEdit :: "'a net_reply \<Rightarrow> Confessions \<Rightarrow> world \<Rightarrow> Confessions \<times> world" where
  "handleEdit rp st w =
     (case selectedConfession st of
        None \<Rightarrow> (st, w)
      | Some c \<Rightarrow>
          if trim (editedMessage st) = [] then (st, w)
          else
            let st1 = st\<lparr>actionLoading := True\<rparr>;
                w1 = w\<lparr>events := events w @
                       [Requested (str ''PUT'') (str ''/confessions/'' @ id_confession c)
                          (JObject [(str ''message'', JString (editedMessage st))])]\<rparr>
            in if responded_ok rp then
                 let w2 = w1\<lparr>events := events w1 @
                            [Toasted (ToastSuccess (str ''Confession updated successfully''))]\<rparr>;
                     st2 = st1\<lparr>isEditDialogOpen := False, editedMessage := [],
                               selectedConfession := None\<rparr>;
                     sw3 = fetchConfessions_start st2 w2
                 in ((fst sw3)\<lparr>actionLoading := False\<rparr>, snd sw3)
               else
                 (st1\<lparr>actionLoading := False\<rparr>,
                  w1\<lparr>events := events w1 @
                       [Toasted (ToastError (str ''Failed to update confession''))]\<rparr>))"

definition handleReply :: "'a net_reply \<Rightarrow> Confessions \<Rightarrow> world \<Rightarrow> Confessions \<times> world" where
  "handleReply rp st w =
     (case selectedConfession st of
        None \<Rightarrow> (st, w)
      | Some c \<Rightarrow>
          if trim (replyText st) = [] then (st, w)
          else
            let st1 = st\<lparr>actionLoading := True\<rparr>;
                w1 = w\<lparr>events := events w @
                       [Requested (str ''POST'')
                          (str ''/confessions/'' @ id_confession c @ str ''/reply'')
                          (JObject [(str ''reply'', JString (replyText st))])]\<rparr>
            in if responded_ok rp then
                 let w2 = w1\<lparr>events := events w1 @
                            [Toasted (ToastSuccess (str ''Reply sent successfully''))]\<rparr>;
                     st2 = st1\<lparr>isReplyDialogOpen := False, replyText := [],
                               selectedConfession := None\<rparr>;
                     sw3 = fetchConfessions_start st2 w2;
                     sw4 = fetchStats_start (fst sw3) (snd sw3)
                 in ((fst sw4)\<lparr>actionLoading := False\<rparr>, snd sw4)
               else
                 (st1\<lparr>actionLoading := False\<rparr>,
                  w1\<lparr>events := events w1 @
                       [Toasted (ToastError (str ''Failed to send reply''))]\<rparr>))"

text \<open>
  The two deleting handlers are given in two steps, since their confirm button acts between
  them: the part that runs at once, up to the request leaving (\<open>None\<close> when the handler
  returns on its first line), and the part that runs when the request has settled.
\<close>

definition handleDeleteReply_start :: "Confessions \<Rightarrow> world \<Rightarrow> (Confessions \<times> world) option" where
  "handleDeleteReply_start st w =
     (case selectedConfession st of
        None \<Rightarrow> None
      | Some c \<Rightarrow>
          Some (st\<lparr>actionLoading := True\<rparr>,
                w\<lparr>events := events w @
                     [Requested (str ''DELETE'')
                        (str ''/confessions/'' @ id_confession c @ str ''/reply'') JNull]\<rparr>))"

definition handleDeleteReply_settle ::
  "'a net_reply \<Rightarrow> Confessions \<Rightarrow> world \<Rightarrow> Confessions \<times> world" where
  "handleDeleteReply_settle rp st1 w1 =
     (if responded_ok rp then
        let w2 = w1\<lparr>events := events w1 @
                   [Toasted (ToastSuccess (str ''Reply deleted successfully''))]\<rparr>;
            st2 = st1\<lparr>isDeleteReplyDialogOpen := False, isViewDialogOpen := False,
                      selectedConfession := None\<rparr>;
            sw3 = fetchConfessions_start st2 w2;
            sw4 = fetchStats_start (fst sw3) (snd sw3)
        in ((fst sw4)\<lparr>actionLoading := False\<rparr>, snd sw4)
      else
        (st1\<lparr>actionLoading := False\<rparr>,
         w1\<lparr>events := events w1 @
              [Toasted (ToastError (str ''Failed to delete reply''))]\<rparr>))"

definition handleDeleteReply :: "'a net_reply \<Rightarrow> Confessions \<Rightarrow> world \<Rightarrow> Confessions \<times> world" where
  "handleDeleteReply rp st w =
     (case handleDeleteReply_start st w of
        None \<Rightarrow> (st, w)
      | Some sw1 \<Rightarrow> handleDeleteReply_settle rp (fst sw1) (snd sw1))"

definition handleDelete_start :: "Confessions \<Rightarrow> world \<Rightarrow> (Confessions \<times> world) option" where
  "handleDelete_start st w =
     (case selectedConfession st of
        None \<Rightarrow> None
      | Some c \<Rightarrow>
          Some (st\<lparr>actionLoading := True\<rparr>,
                w\<lparr>events := events w @
                     [Requested (str ''DELETE'') (str ''/confessions/'' @ id_confession c)
                        JNull]\<rparr>))"

definition handleDelete_settle ::
  "'a net_reply \<Rightarrow> Confessions \<Rightarrow> world \<Rightarrow> Confessions \<times> world" where
  "handleDelete_settle rp st1 w1 =
     (if responded_ok rp then
        let w2 = w1\<lparr>events := events w1 @
                   [Toasted (ToastSuccess (str ''Confession deleted successfully''))]\<rparr>;
            st2 = st1\<lparr>isDeleteDialogOpen := False, selectedConfession := None\<rparr>;
            sw3 = fetchConfessions_start st2 w2;
            sw4 = fetchStats_start (fst sw3) (snd sw3)
        in ((fst sw4)\<lparr>actionLoading := False\<rparr>, snd sw4)
      else
        (st1\<lparr>actionLoading := False\<rparr>,
         w1\<lparr>events := events w1 @
              [Toasted (ToastError (str ''Failed to delete confession''))]\<rparr>))"

definition handleDelete :: "'a net_reply \<Rightarrow> Confessions \<Rightarrow> world \<Rightarrow> Confessions \<times> world" where
  "handleDelete rp st w =
     (case handleDelete_start st w of
        None \<Rightarrow> (st, w)
      | Some sw1 \<Rightarrow> handleDelete_settle rp (fst sw1) (snd sw1))"

definition openDeleteDialog :: "Confession \<Rightarrow> Confessions \<Rightarrow> Confessions" where
  "openDeleteDialog confession st =
     st\<lparr>selectedConfession := Some confession, isDeleteDialogOpen := True\<rparr>"

definition openDeleteReplyDialog :: "Confession \<Rightarrow> Confessions \<Rightarrow> Confessions" where
  "openDeleteReplyDialog confession st =
     st\<lparr>selectedConfession := Some confession, isDeleteReplyDialogOpen := True\<rparr>"

definition openEditDialog :: "Confession \<Rightarrow> Confessions \<Rightarrow> Confessions" where
  "openEditDialog confession st =
     st\<lparr>selectedConfession := Some confession,
        editedMessage := message_confession confession,
        isEditDialogOpen := True\<rparr>"

definition openReplyDialog :: "Confession \<Rightarrow> Confessions \<Rightarrow> Confessions" where
  "openReplyDialog confession st =
     st\<lparr>selectedConfession := Some confession,
        replyText := or_else (reply confession) [],
        isReplyDialogOpen := True\<rparr>"

subsection \<open>The buttons that run the actions\<close>

text \<open>
  The edit and the reply dialog run their handler from a plain button, which is disabled
  while the text is empty or an action is in flight.
\<close>

definition clickSaveChanges :: "'a net_reply \<Rightarrow> Confessions \<Rightarrow> world \<Rightarrow> Confessions \<times> world" where
  "clickSaveChanges rp st w =
     (if trim (editedMessage st) = [] \<or> actionLoading st then (st, w) else handleEdit rp st w)"

definition clickSendReply :: "'a net_reply \<Rightarrow> Confessions \<Rightarrow> world \<Rightarrow> Confessions \<times> world" where
  "clickSendReply rp st w =
     (if trim (replyText st) = [] \<or> actionLoading st then (st, w) else handleReply rp st w)"

text \<open>
  The two delete confirmations run their handler from an \<open>AlertDialogAction\<close> inside an
  \<open>AlertDialog\<close> whose \<open>onOpenChange\<close> is the setter of the dialog's flag. The
  \<open>AlertDialogAction\<close> is the alert dialog's action button of the user-interface
  library (\<open>ui/alert-dialog\<close>, not among the source files): a click on it, unless it is
  disabled, calls \<open>onClick\<close> and then, the handlers not preventing the default, closes the
  dialog by calling \<open>onOpenChange(false)\<close>. By then the handler has run up to its first
  \<open>await\<close>; the rest of it runs when the request has settled.
\<close>

definition clickDeleteReply :: "'a net_reply \<Rightarrow> Confessions \<Rightarrow> world \<Rightarrow> Confessions \<times> world" where
  "clickDeleteReply rp st w =
     (if actionLoading st then (st, w)
      else
        case handleDeleteReply_start st w of
          None \<Rightarrow> (st\<lparr>isDeleteReplyDialogOpen := False\<rparr>, w)
        | Some sw1 \<Rightarrow>
            handleDeleteReply_settle rp ((fst sw1)\<lparr>isDeleteReplyDialogOpen := False\<rparr>) (snd sw1))"

definition clickDelete :: "'a net_reply \<Rightarrow> Confessions \<Rightarrow> world \<Rightarrow> Confessions \<times> world" where
  "clickDelete rp st w =
     (if actionLoading st then (st, w)
      else
        case handleDelete_start st w of
          None \<Rightarrow> (st\<lparr>isDeleteDialogOpen := False\<rparr>, w)
        | Some sw1 \<Rightarrow> handleDelete_settle rp ((fst sw1)\<lparr>isDeleteDialogOpen := False\<rparr>) (snd sw1))"

text \<open>A refetch is a \<open>GET\<close> request.\<close>

definition isRefetch :: "event \<Rightarrow> bool" where
  "isRefetch e = (case e of Requested m u b \<Rightarrow> m = str ''GET'' | _ \<Rightarrow> False)"

text \<open>
  What an action that has failed is to leave as it was (\<open>r\<close> is its result from the state
  \<open>st\<close> and the history of \<open>w\<close>): the list, the statistics, the selection and the texts,
  with no refetch started.
\<close>

definition list_unmodified :: "Confessions \<Rightarrow> world \<Rightarrow> Confessions \<times> world \<Rightarrow> bool" where
  "list_unmodified st w r =
     (confessions (fst r) = confessions st
      \<and> stats (fst r) = stats st
      \<and> loading (fst r) = loading st
      \<and> selectedConfession (fst r) = selectedConfession st
      \<and> replyText (fst r) = replyText st
      \<and> editedMessage (fst r) = editedMessage st
      \<and> filter_state (fst r) = filter_state st
      \<and> filter isRefetch (events (snd r)) = filter isRefetch (events w))"

subsection \<open>The backend, as far as a delete needs it\<close>

text \<open>
  The backend is not part of this repository. For the outcome of a delete it is taken to
  hold a list of records, to remove on \<open>DELETE /confessions/{id}\<close> the record with that
  id (answering 404 when it holds none), to answer the list request with the records that
  match the filter of the query, and to answer the statistics request with the counts of
  its records. It serves the requests that the component has issued, as they stand in the
  history.
\<close>

definition backend_list :: "jsstring \<Rightarrow> Confession list \<Rightarrow> Confession list" where
  "backend_list flt db =
     (if flt = str ''all'' then db
      else filter (\<lambda>c. isReplied c = (flt = str ''replied'')) db)"

definition backend_stats :: "Confession list \<Rightarrow> Stats" where
  "backend_stats db =
     \<lparr>total = int (length db),
      replied = int (length (filter isReplied db)),
      notReplied = int (length (filter (\<lambda>c. \<not> isReplied c) db))\<rparr>"

definition backend_delete :: "jsstring \<Rightarrow> Confession list \<Rightarrow> Confession list" where
  "backend_delete i db = filter (\<lambda>c. id_confession c \<noteq> i) db"

datatype backend_reply = Deleted | Listed "Confession list" | Summary Stats | NotFound

definition backend_serve :: "event \<Rightarrow> Confession list \<Rightarrow> backend_reply \<times> Confession list" where
  "backend_serve e db =
     (case e of
        Requested m p b \<Rightarrow>
          if m = str ''DELETE'' then
            (if \<exists>c\<in>set db. p = str ''/confessions/'' @ id_confession c
             then (Deleted, filter (\<lambda>c. p \<noteq> str ''/confessions/'' @ id_confession c) db)
             else (NotFound, db))
          else if m = str ''GET'' then
            (if p = str ''/confessions/stats/summary'' then (Summary (backend_stats db), db)
             else if p = str ''/confessions/'' then (Listed db, db)
             else if p = str ''/confessions/?is_replied=true''
               then (Listed (filter isReplied db), db)
             else if p = str ''/confessions/?is_replied=false''
               then (Listed (filter (\<lambda>c. \<not> isReplied c) db), db)
             else (NotFound, db))
          else (NotFound, db)
      | _ \<Rightarrow> (NotFound, db))"

definition replies_with :: "'a \<Rightarrow> 'a net_reply" where
  "replies_with data = \<lparr>elapsed = 50, outcome = Responds 200 (Parsed data)\<rparr>"

definition replies_404 :: "'a net_reply" where
  "replies_404 = \<lparr>elapsed = 50, outcome = Responds 404 (Unparseable (str ''Not Found''))\<rparr>"

definition delete_reply :: "backend_reply \<Rightarrow> unit net_reply" where
  "delete_reply r = (case r of Deleted \<Rightarrow> replies_with () | _ \<Rightarrow> replies_404)"

definition list_reply :: "backend_reply \<Rightarrow> Confession list net_reply" where
  "list_reply r = (case r of Listed xs \<Rightarrow> replies_with xs | _ \<Rightarrow> replies_404)"

definition stats_reply :: "backend_reply \<Rightarrow> Stats net_reply" where
  "stats_reply r = (case r of Summary s \<Rightarrow> replies_with s | _ \<Rightarrow> replies_404)"

text \<open>The events that have been added to the history of \<open>w\<close> in \<open>w'\<close>.\<close>

definition issued :: "world \<Rightarrow> world \<Rightarrow> event list" where
  "issued w w' = drop (length (events w)) (events w')"

text \<open>
  A pending refetch settles with the backend's answer to its request: the request for the
  statistics is the one of \<open>fetchStats\<close>, any other the one of \<open>fetchConfessions\<close>.
\<close>

definition settle_refetch ::
  "Confession list \<Rightarrow> event \<Rightarrow> Confessions \<times> world \<Rightarrow> Confessions \<times> world" where
  "settle_refetch db e sw =
     (case e of
        Requested m p b \<Rightarrow>
          if p = str ''/confessions/stats/summary''
          then fetchStats_settle (stats_reply (fst (backend_serve e db))) (fst sw) (snd sw)
          else fetchConfessions_settle (list_reply (fst (backend_serve e db))) (fst sw) (snd sw)
      | _ \<Rightarrow> sw)"

text \<open>
  A click on the confirm button of the delete dialog, with the backend answering: the
  request that the handler has issued is served, the button closes the dialog, the handler
  goes on with the answer, and the refetches that it has started settle, in either order
  (\<open>stats_first\<close>), with the backend's answers to their requests.
\<close>

definition delete_with_backend ::
  "bool \<Rightarrow> Confession list \<Rightarrow> Confessions \<Rightarrow> world \<Rightarrow> Confessions \<times> world" where
  "delete_with_backend stats_first db st w =
     (if actionLoading st then (st, w)
      else
        case handleDelete_start st w of
          None \<Rightarrow> (st\<lparr>isDeleteDialogOpen := False\<rparr>, w)
        | Some sw1 \<Rightarrow>
            let served = (case issued w (snd sw1) of
                            [e] \<Rightarrow> backend_serve e db
                          | _ \<Rightarrow> (NotFound, db));
                sw2 = handleDelete_settle (delete_reply (fst served))
                        ((fst sw1)\<lparr>isDeleteDialogOpen := False\<rparr>) (snd sw1);
                pending = filter isRefetch (issued (snd sw1) (snd sw2))
            in fold (settle_refetch (snd served))
                 (if stats_first then rev pending else pending) sw2)"

subsection \<open>Sample records\<close>

definition confession_a :: Confession where
  "confession_a =
     \<lparr>id_confession = str ''a1'', message_confession = str ''first'', ipAddress = str ''10.0.0.1'',
      reply = None, replyCreatedAt = None, isReplied = False,
      createdAt = str ''2024-01-01T00:00:00Z''\<rparr>"

definition confession_b :: Confession where
  "confession_b =
     \<lparr>id_confession = str ''b2'', message_confession = str ''second'', ipAddress = str ''10.0.0.2'',
      reply = Some (str ''thanks''), replyCreatedAt = Some (str ''2024-01-03T00:00:00Z''),
      isReplied = True, createdAt = str ''2024-01-02T00:00:00Z''\<rparr>"

text \<open>The state of the component when it mounts.\<close>

definition initial_Confessions :: Confessions where
  "initial_Confessions =
     \<lparr>confessions = [], stats = \<lparr>total = 0, replied = 0, notReplied = 0\<rparr>,
      loading = True, actionLoading = False, selectedConfession = None,
      replyText = [], editedMessage = [], isReplyDialogOpen = False, isViewDialogOpen = False,
      isEditDialogOpen = False, isDeleteDialogOpen = False, isDeleteReplyDialogOpen = False,
      filter_state = str ''all''\<rparr>"

definition confessions_shown :: Confessions where
  "confessions_shown =
     \<lparr>confessions = [confession_a, confession_b],
      stats = \<lparr>total = 2, replied = 1, notReplied = 1\<rparr>,
      loading = False, actionLoading = False, selectedConfession = None,
      replyText = [], editedMessage = [], isReplyDialogOpen = False, isViewDialogOpen = False,
      isEditDialogOpen = False, isDeleteDialogOpen = False, isDeleteReplyDialogOpen = False,
      filter_state = str ''all''\<rparr>"

definition net_500 :: "unit net_reply" where
  "net_500 = \<lparr>elapsed = 70, outcome = Responds 500 (Unparseable (str ''Unexpected token''))\<rparr>"

text \<open>
  The component has mounted, the list has arrived and the request for the statistics has
  failed, which \<open>fetchStats\<close> only logs: the list is shown over the initial statistics.
\<close>

definition stats_down :: "Stats net_reply" where
  "stats_down = \<lparr>elapsed = 30, outcome = Rejects (str ''Failed to fetch'')\<rparr>"

definition shown_without_stats :: Confessions where
  "shown_without_stats =
     fst (fetchStats_settle stats_down
            (fst (fetchConfessions_settle (replies_with [confession_a, confession_b])
                    initial_Confessions world_start))
            world_start)"

section \<open>Properties of the metrics\<close>

lemma foldl_plus_sum_list:
  "foldl (\<lambda>sum r. sum + f r) a xs = a + sum_list (map f xs)"
  for a :: rat
  by (induction xs arbitrary: a) (simp_all add: add.assoc)

lemma js_div_length:
  "xs \<noteq> [] \<Longrightarrow> js_div a (of_nat (length xs)) = Fin (a / of_nat (length xs))"
  by (simp add: js_div_def)

lemma avgDuration_mean:
  "avgDuration rs =
     (if completedTests rs = [] then Fin 0
      else Fin (mean (map duration_seconds (completedTests rs))))"
  by (simp add: avgDuration_def mean_def foldl_plus_sum_list js_div_length)

lemma avgScore_mean:
  "avgScore rs =
     (if successfulTests rs = [] then Fin 0
      else Fin (mean (map topScore (successfulTests rs))))"
  by (simp add: avgScore_def mean_def foldl_plus_sum_list js_div_length)

text \<open>
  C2 (as stated): the average top score is the mean of the first hit's score over all
  completed results. It is not: the run \<open>two_results\<close> has two completed results, whose
  top scores (0.8, and 0 for the failed request, which has no hit) have mean 0.4, and the
  dashboard's average top score is 0.8.
\<close>

theorem C2_avgScore_not_over_completed:
  "completedTests two_results = [hit_result, failed_result]
   \<and> mean (map topScore (completedTests two_results)) = 2 / 5
   \<and> avgScore two_results = Fin (4 / 5)
   \<and> avgScore two_results \<noteq> Fin (mean (map topScore (completedTests two_results)))"
  by (simp add: avgScore_mean successfulTests_def completedTests_def map_values_def
      two_results_def hit_result_def failed_result_def mean_def topScore_def)

text \<open>
  C2 (amended): the average duration is the arithmetic mean of \<open>duration_seconds\<close> over
  the results that are not pending; the average top score is the arithmetic mean of the
  first hit's score (0 when a result has no hit) over the successful results, that is the
  non-pending results with status success and a positive result count; each of the two is
  zero, and not NaN, when the list it averages is empty.
\<close>

theorem C2_averages:
  "avgDuration rs =
     (if completedTests rs = [] then Fin 0
      else Fin (mean (map duration_seconds (completedTests rs))))
   \<and> avgScore rs =
     (if successfulTests rs = [] then Fin 0
      else Fin (mean (map topScore (successfulTests rs))))
   \<and> avgDuration rs \<noteq> NaN \<and> avgScore rs \<noteq> NaN"
  by (simp add: avgDuration_mean avgScore_mean)

theorem C2_averages_witness:
  "avgDuration two_results = Fin 1 \<and> avgScore two_results = Fin (4 / 5)
   \<and> avgDuration [] = Fin 0 \<and> avgScore [] = Fin 0"
  using C2_averages [of two_results] C2_averages [of "[]"]
  by (simp add: successfulTests_def completedTests_def map_values_def
      two_results_def hit_result_def failed_result_def mean_def topScore_def)

section \<open>Properties of the batch run\<close>

lemma map_keys_map_set:
  "map_keys (map_set k v m) = (if k \<in> set (map_keys m) then map_keys m else map_keys m @ [k])"
  by (induction m) (force simp: map_keys_def)+

lemma map_set_fresh: "k \<notin> set (map_keys m) \<Longrightarrow> map_set k v m = m @ [(k, v)]"
  by (induction m) (auto simp: map_keys_def)

lemma map_values_map_set:
  "set (map_values (map_set k v m)) \<subseteq> insert v (set (map_values m))"
  by (induction m) (fastforce simp: map_values_def split: if_splits)+

lemma map_get_Some_iff: "(\<exists>v. map_get m k = Some v) \<longleftrightarrow> k \<in> set (map_keys m)"
  using map_of_eq_None_iff [of m k] by (auto simp add: map_get_def map_keys_def)

lemma map_get_values: "map_get m k = Some v \<Longrightarrow> v \<in> set (map_values m)"
  by (auto simp add: map_get_def map_values_def dest: map_of_SomeD intro: rev_image_eqI)

lemma runSingleTest_events:
  "events (snd (runSingleTest q rp w)) =
   events w @ (if wellFormed q then [RequestStarted q, RequestSettled q] else [])"
  by (simp add: runSingleTest_def runSingleTest_try_def Let_def
      split: fetch_outcome.splits body.splits)

lemma runSingleTest_query: "query (fst (runSingleTest q rp w)) = q"
  by (simp add: runSingleTest_def runSingleTest_try_def Let_def
      split: fetch_outcome.splits body.splits)

lemma runSingleTest_status:
  "status (fst (runSingleTest q rp w)) = (if failed rp \<or> \<not> wellFormed q then Error else Success)"
  by (simp add: failed_def runSingleTest_def runSingleTest_try_def Let_def
      split: fetch_outcome.splits body.splits)

lemma runSingleTest_failed:
  assumes "failed rp \<or> \<not> wellFormed q"
  shows "results_count (fst (runSingleTest q rp w)) = 0"
    and "results (fst (runSingleTest q rp w)) = []"
    and "duration_seconds (fst (runSingleTest q rp w)) =
           of_int (now (snd (runSingleTest q rp w)) - now w) / 1000"
    and "config (fst (runSingleTest q rp w)) = \<lparr>limit = 5, min_similarity = 1 / 4\<rparr>"
    and "error (fst (runSingleTest q rp w)) \<noteq> None"
  using assms
  by (auto simp add: failed_def runSingleTest_def runSingleTest_try_def Let_def
      split: fetch_outcome.splits body.splits)

lemma loop_step:
  "i < length scs \<Longrightarrow>
   runAll_loop net scs i nr st w =
   runAll_loop net scs (Suc i)
     (map_set (id_scenario (scs ! i))
        (fst (runSingleTest (query_scenario (scs ! i)) (net i (query_scenario (scs ! i))) w)) nr)
     (st\<lparr>resultsMap := map_set (id_scenario (scs ! i))
        (fst (runSingleTest (query_scenario (scs ! i)) (net i (query_scenario (scs ! i))) w)) nr,
         progress := of_nat (Suc i) / of_nat (length scs) * 100\<rparr>)
     ((snd (runSingleTest (query_scenario (scs ! i)) (net i (query_scenario (scs ! i))) w))
        \<lparr>events :=
           events (snd (runSingleTest (query_scenario (scs ! i))
                          (net i (query_scenario (scs ! i))) w))
           @ [ProgressSet (of_nat (Suc i) / of_nat (length scs) * 100)]\<rparr>)"
  by (subst runAll_loop.simps) (simp add: Let_def)

lemma loop_done: "\<not> i < length scs \<Longrightarrow> runAll_loop net scs i nr st w = (st, w)"
  by (subst runAll_loop.simps) simp

lemma loop_events:
  "i \<le> length scs \<Longrightarrow>
   events (snd (runAll_loop net scs i nr st w)) =
   events w @ concat (map (\<lambda>j. iteration_events (length scs) j (query_scenario (scs ! j)))
                        [i..<length scs])"
proof (induction "length scs - i" arbitrary: i nr st w)
  case 0
  then show ?case by (simp add: loop_done)
next
  case (Suc n)
  then have lt: "i < length scs" and n: "n = length scs - Suc i" and le: "Suc i \<le> length scs"
    by simp_all
  show ?case
    by (simp add: loop_step [OF lt] Suc.hyps(1) [OF n le] runSingleTest_events
        iteration_events_def upt_conv_Cons [OF lt])
qed

lemma loop_entries:
  "i < length scs \<Longrightarrow>
   distinct (map_keys nr @ map id_scenario (drop i scs)) \<Longrightarrow>
   map (\<lambda>kr. (fst kr, query (snd kr))) (resultsMap (fst (runAll_loop net scs i nr st w))) =
   map (\<lambda>kr. (fst kr, query (snd kr))) nr
   @ map (\<lambda>s. (id_scenario s, query_scenario s)) (drop i scs)"
proof (induction "length scs - i" arbitrary: i nr st w)
  case 0
  then show ?case by simp
next
  case (Suc n)
  from Suc.prems(1) have dr: "drop i scs = scs ! i # drop (Suc i) scs"
    by (simp add: Cons_nth_drop_Suc)
  have n: "n = length scs - Suc i" using Suc.hyps(2) by simp
  have fresh: "id_scenario (scs ! i) \<notin> set (map_keys nr)"
    using Suc.prems(2) by (auto simp add: dr)
  show ?case
  proof (cases "Suc i < length scs")
    case True
    show ?thesis
      using Suc.prems(2) fresh
      by (subst loop_step [OF Suc.prems(1)], subst Suc.hyps(1) [OF n True])
         (auto simp add: dr map_set_fresh runSingleTest_query map_keys_def)
  next
    case False
    then show ?thesis
      using Suc.prems dr fresh
      by (simp add: loop_step loop_done map_set_fresh runSingleTest_query map_keys_def)
  qed
qed

lemma loop_keys_set:
  "i < length scs \<Longrightarrow>
   set (map_keys (resultsMap (fst (runAll_loop net scs i nr st w)))) =
   set (map_keys nr) \<union> id_scenario ` set (drop i scs)"
proof (induction "length scs - i" arbitrary: i nr st w)
  case 0
  then show ?case by simp
next
  case (Suc n)
  from Suc.prems(1) have dr: "drop i scs = scs ! i # drop (Suc i) scs"
    by (simp add: Cons_nth_drop_Suc)
  have n: "n = length scs - Suc i" using Suc.hyps(2) by simp
  show ?case
  proof (cases "Suc i < length scs")
    case True
    show ?thesis
      by (subst loop_step [OF Suc.prems(1)], subst Suc.hyps(1) [OF n True])
         (auto simp add: dr map_keys_map_set)
  next
    case False
    then show ?thesis
      using Suc.prems dr
      by (auto simp add: loop_step loop_done map_keys_map_set)
  qed
qed

lemma loop_all_failed:
  "i < length scs \<Longrightarrow>
   (\<forall>j<length scs. failed (net j (query_scenario (scs ! j)))) \<Longrightarrow>
   (\<forall>r\<in>set (map_values nr). status r = Error) \<Longrightarrow>
   (\<forall>r\<in>set (map_values (resultsMap (fst (runAll_loop net scs i nr st w)))). status r = Error)"
proof (induction "length scs - i" arbitrary: i nr st w)
  case 0
  then show ?case by simp
next
  case (Suc n)
  let ?r = "fst (runSingleTest (query_scenario (scs ! i)) (net i (query_scenario (scs ! i))) w)"
  have n: "n = length scs - Suc i" using Suc.hyps(2) by simp
  have "failed (net i (query_scenario (scs ! i)))" using Suc.prems by simp
  then have "status ?r = Error"
    by (simp add: runSingleTest_status)
  with Suc.prems(3)
  have inv: "\<forall>r\<in>set (map_values (map_set (id_scenario (scs ! i)) ?r nr)). status r = Error"
    using map_values_map_set [of "id_scenario (scs ! i)" ?r nr] by auto
  show ?case
  proof (cases "Suc i < length scs")
    case True
    show ?thesis
      by (subst loop_step [OF Suc.prems(1)]) (rule Suc.hyps(1) [OF n True Suc.prems(2) inv])
  next
    case False
    then show ?thesis
      using Suc.prems(1) inv
      by (simp add: loop_step loop_done)
  qed
qed

lemma loop_progress:
  "i < length scs \<Longrightarrow> progress (fst (runAll_loop net scs i nr st w)) = 100"
proof (induction "length scs - i" arbitrary: i nr st w)
  case 0
  then show ?case by simp
next
  case (Suc n)
  have n: "n = length scs - Suc i" using Suc.hyps(2) by simp
  show ?case
  proof (cases "Suc i < length scs")
    case True
    show ?thesis
      by (subst loop_step [OF Suc.prems(1)]) (rule Suc.hyps(1) [OF n True])
  next
    case False
    with Suc.prems have eq: "length scs = Suc i" by simp
    have "rat_of_nat (Suc i) / rat_of_nat (Suc i) * 100 = 100"
      by (simp del: of_nat_Suc)
    then show ?thesis
      by (simp add: loop_step loop_done eq del: of_nat_Suc)
  qed
qed

lemma progress_full_iff:
  "j < N \<Longrightarrow> (of_nat (j + 1) / of_nat N * 100 = (100::rat)) \<longleftrightarrow> j + 1 = N"
proof -
  assume "j < N"
  then have nz: "of_nat N \<noteq> (0::rat)" by simp
  have hundred: "(a * 100 = (100::rat)) \<longleftrightarrow> a = 1" for a :: rat
    by auto
  have "(of_nat (j + 1) / of_nat N * 100 = (100::rat))
        \<longleftrightarrow> (of_nat (j + 1) / of_nat N = (1::rat))"
    by (rule hundred)
  also have "\<dots> \<longleftrightarrow> (of_nat (j + 1) :: rat) = of_nat N"
    using nz by (simp only: divide_eq_1_iff) blast
  also have "\<dots> \<longleftrightarrow> j + 1 = N"
    by (rule of_nat_eq_iff)
  finally show ?thesis .
qed

lemma loop_keys_distinct:
  "i < length scs \<Longrightarrow> distinct (map_keys nr) \<Longrightarrow>
   distinct (map_keys (resultsMap (fst (runAll_loop net scs i nr st w))))"
proof (induction "length scs - i" arbitrary: i nr st w)
  case 0
  then show ?case by simp
next
  case (Suc n)
  let ?nr = "map_set (id_scenario (scs ! i))
       (fst (runSingleTest (query_scenario (scs ! i)) (net i (query_scenario (scs ! i))) w)) nr"
  have n: "n = length scs - Suc i" using Suc.hyps(2) by simp
  have d: "distinct (map_keys ?nr)"
    using Suc.prems(2) by (simp add: map_keys_map_set)
  show ?case
  proof (cases "Suc i < length scs")
    case True
    show ?thesis
      by (subst loop_step [OF Suc.prems(1)]) (rule Suc.hyps(1) [OF n True d])
  next
    case False
    then show ?thesis
      using Suc.prems(1) d
      by (simp add: loop_step loop_done)
  qed
qed

lemma handleRunAll_events:
  "events (snd (handleRunAll net st w)) =
   events w
   @ concat (map (\<lambda>j. iteration_events (length (scenarios st)) j
                         (query_scenario (scenarios st ! j)))
               [0..<length (scenarios st)])
   @ [completed_toast (length (scenarios st))]"
  by (simp add: handleRunAll_def Let_def loop_events completed_toast_def)

lemma handleRunAll_entries:
  assumes "scenarios st \<noteq> []" and "distinct (map id_scenario (scenarios st))"
  shows "map (\<lambda>kr. (fst kr, query (snd kr))) (resultsMap (fst (handleRunAll net st w))) =
         map (\<lambda>s. (id_scenario s, query_scenario s)) (scenarios st)"
  using assms loop_entries [of 0 "scenarios st" "[]"]
  by (simp add: handleRunAll_def Let_def map_keys_def)

lemma handleRunAll_keys_set:
  "scenarios st \<noteq> [] \<Longrightarrow>
   set (map_keys (resultsMap (fst (handleRunAll net st w)))) = id_scenario ` set (scenarios st)"
  using loop_keys_set [of 0 "scenarios st" net "[]"]
  by (simp add: handleRunAll_def Let_def map_keys_def)

lemma handleRunAll_length:
  assumes "scenarios st \<noteq> []"
  shows "length (resultsMap (fst (handleRunAll net st w))) =
         card (id_scenario ` set (scenarios st))"
proof -
  let ?m = "resultsMap (fst (handleRunAll net st w))"
  have "distinct (map_keys ?m)"
    using assms loop_keys_distinct [of 0 "scenarios st" "[]" net]
    by (simp add: handleRunAll_def Let_def map_keys_def)
  then have "card (set (map_keys ?m)) = length (map_keys ?m)"
    by (rule distinct_card)
  then show ?thesis
    by (simp add: handleRunAll_keys_set [OF assms]) (simp add: map_keys_def)
qed

lemma toString_world_start: "toString 1700000000000 = str ''1700000000000''"
  by code_simp

lemma handleRunAll_all_failed:
  "scenarios st \<noteq> [] \<Longrightarrow>
   \<forall>j<length (scenarios st). failed (net j (query_scenario (scenarios st ! j))) \<Longrightarrow>
   \<forall>r\<in>set (map_values (resultsMap (fst (handleRunAll net st w)))). status r = Error"
  using loop_all_failed [of 0 "scenarios st" net "[]"]
  by (simp add: handleRunAll_def Let_def map_values_def)

lemma handleRunAll_progress:
  "scenarios st \<noteq> [] \<Longrightarrow> progress (fst (handleRunAll net st w)) = 100"
  by (simp add: handleRunAll_def Let_def loop_progress)

lemma handleRunAll_isRunningAll: "isRunningAll (fst (handleRunAll net st w)) = False"
  by (simp add: handleRunAll_def Let_def)

text \<open>
  C1 (as stated): for every non-empty scenario list of length N, "run all" leaves exactly N
  entries in the results map. Not for every list: the id of an added scenario is the reading
  of the clock, so two scenarios added in the same millisecond share their id, and the
  second result of the run replaces the first under that key. After \<open>added_twice\<close> the
  list has 7 scenarios and the run leaves 6 entries.
\<close>

theorem C1_shared_id_one_entry:
  "scenarios (fst added_twice) \<noteq> []
   \<and> length (scenarios (fst added_twice)) = 7
   \<and> length (resultsMap (fst (handleRunAll net_up (fst added_twice) (snd added_twice)))) = 6"
proof -
  have sc: "map id_scenario (scenarios (fst added_twice)) =
            [str ''1'', str ''2'', str ''3'', str ''4'', str ''5'',
             str ''1700000000000'', str ''1700000000000'']"
    by (simp add: added_twice_def handleAddScenario_def initial_TestRetrieval_def
        DEFAULT_SCENARIOS_def world_start_def toString_world_start trim_def isWhiteSpace_def
        Let_def str_def)
  from arg_cong [OF sc, where f = length]
  have len: "length (scenarios (fst added_twice)) = 7"
    by simp
  then have ne: "scenarios (fst added_twice) \<noteq> []"
    by auto
  from arg_cong [OF sc, where f = "\<lambda>xs. card (set xs)"]
  have "card (id_scenario ` set (scenarios (fst added_twice))) = 6"
    by (simp add: str_def)
  with handleRunAll_length [OF ne, of net_up "snd added_twice"] len ne
  show ?thesis by simp
qed

text \<open>
  C1 (amended): for every non-empty scenario list of length N whose ids are pairwise
  distinct and whose queries are well-formed UTF-16 (so that building the request URL does
  not throw), "run all" issues the N retrieval requests strictly sequentially in list order:
  the history it adds is, for each scenario in turn, the request leaving, the request
  settling, and the progress being set to ((i+1)/N)*100. At the end the results map has
  exactly N entries, the i-th keyed by the id of the i-th scenario and holding a result for
  its query, the progress is 100, and a progress value of the run is 100 only for the N-th
  scenario.
\<close>

theorem C1_run_all_sequential:
  assumes "scenarios st \<noteq> []"
    and "distinct (map id_scenario (scenarios st))"
    and "\<forall>s\<in>set (scenarios st). wellFormed (query_scenario s)"
  shows "events (snd (handleRunAll net st w)) =
           events w
           @ concat (map (\<lambda>j. [RequestStarted (query_scenario (scenarios st ! j)),
                                RequestSettled (query_scenario (scenarios st ! j)),
                                ProgressSet (of_nat (j + 1) / of_nat (length (scenarios st)) * 100)])
                       [0..<length (scenarios st)])
           @ [completed_toast (length (scenarios st))]
         \<and> map (\<lambda>kr. (fst kr, query (snd kr))) (resultsMap (fst (handleRunAll net st w))) =
             map (\<lambda>s. (id_scenario s, query_scenario s)) (scenarios st)
         \<and> length (resultsMap (fst (handleRunAll net st w))) = length (scenarios st)
         \<and> progress (fst (handleRunAll net st w)) = 100
         \<and> (\<forall>j<length (scenarios st).
               (of_nat (j + 1) / of_nat (length (scenarios st)) * 100 = (100::rat))
               \<longleftrightarrow> j + 1 = length (scenarios st))"
proof -
  let ?N = "length (scenarios st)"
  have "map (\<lambda>j. iteration_events ?N j (query_scenario (scenarios st ! j))) [0..<?N] =
        map (\<lambda>j. [RequestStarted (query_scenario (scenarios st ! j)),
                   RequestSettled (query_scenario (scenarios st ! j)),
                   ProgressSet (of_nat (j + 1) / of_nat ?N * 100)]) [0..<?N]"
    using assms(3) by (intro map_cong refl) (simp add: iteration_events_def)
  then have ev: "events (snd (handleRunAll net st w)) =
           events w
           @ concat (map (\<lambda>j. [RequestStarted (query_scenario (scenarios st ! j)),
                                RequestSettled (query_scenario (scenarios st ! j)),
                                ProgressSet (of_nat (j + 1) / of_nat ?N * 100)]) [0..<?N])
           @ [completed_toast ?N]"
    by (simp only: handleRunAll_events)
  have en: "map (\<lambda>kr. (fst kr, query (snd kr))) (resultsMap (fst (handleRunAll net st w))) =
            map (\<lambda>s. (id_scenario s, query_scenario s)) (scenarios st)"
    using assms(1,2) by (rule handleRunAll_entries)
  from arg_cong [OF en, where f = length]
  have len: "length (resultsMap (fst (handleRunAll net st w))) = ?N"
    by simp
  have pr: "progress (fst (handleRunAll net st w)) = 100"
    using assms(1) by (rule handleRunAll_progress)
  have full: "\<forall>j<?N. (of_nat (j + 1) / of_nat ?N * 100 = (100::rat)) \<longleftrightarrow> j + 1 = ?N"
    using progress_full_iff by blast
  from ev en len pr full show ?thesis by blast
qed

theorem C1_run_all_sequential_witness:
  "scenarios initial_TestRetrieval \<noteq> []
   \<and> distinct (map id_scenario (scenarios initial_TestRetrieval))
   \<and> list_all (\<lambda>s. wellFormed (query_scenario s)) (scenarios initial_TestRetrieval)
   \<and> map fst (resultsMap (fst (handleRunAll net_up initial_TestRetrieval world_start))) =
       [str ''1'', str ''2'', str ''3'', str ''4'', str ''5'']
   \<and> length (resultsMap (fst (handleRunAll net_up initial_TestRetrieval world_start))) = 5
   \<and> progress (fst (handleRunAll net_up initial_TestRetrieval world_start)) = 100"
proof -
  have h1: "scenarios initial_TestRetrieval \<noteq> []"
    by (simp add: initial_TestRetrieval_def DEFAULT_SCENARIOS_def)
  have h2: "distinct (map id_scenario (scenarios initial_TestRetrieval))"
    by (simp add: initial_TestRetrieval_def DEFAULT_SCENARIOS_def str_def)
  have h3: "\<forall>s\<in>set (scenarios initial_TestRetrieval). wellFormed (query_scenario s)"
    by (simp add: initial_TestRetrieval_def DEFAULT_SCENARIOS_def str_def
        isHighSurrogate_def isLowSurrogate_def)
  have ids: "map id_scenario (scenarios initial_TestRetrieval) =
             [str ''1'', str ''2'', str ''3'', str ''4'', str ''5'']"
    by (simp add: initial_TestRetrieval_def DEFAULT_SCENARIOS_def)
  have len: "length (scenarios initial_TestRetrieval) = 5"
    by (simp add: initial_TestRetrieval_def DEFAULT_SCENARIOS_def)
  note c = C1_run_all_sequential [OF h1 h2 h3, of net_up world_start]
  from c have "map (\<lambda>kr. (fst kr, query (snd kr)))
                 (resultsMap (fst (handleRunAll net_up initial_TestRetrieval world_start))) =
               map (\<lambda>s. (id_scenario s, query_scenario s)) (scenarios initial_TestRetrieval)"
    by blast
  from arg_cong [OF this, where f = "map fst"]
  have keys: "map fst (resultsMap (fst (handleRunAll net_up initial_TestRetrieval world_start))) =
              [str ''1'', str ''2'', str ''3'', str ''4'', str ''5'']"
    by (simp add: ids comp_def)
  from c len have "length (resultsMap (fst (handleRunAll net_up initial_TestRetrieval world_start))) = 5"
    by simp
  moreover from c have "progress (fst (handleRunAll net_up initial_TestRetrieval world_start)) = 100"
    by blast
  ultimately show ?thesis using h1 h2 h3 keys by (simp add: list_all_iff)
qed

text \<open>
  C10: \<open>runSingleTest\<close> returns a result for every query and every behaviour of the
  network, every error thrown inside it being caught: the result has status error exactly
  when the request failed (rejected fetch, status outside 2xx, body that does not parse) or
  could not be built, and then its result count is 0, its result list is empty, its
  duration is the time measured on the client's clock, its config is
  \<open>{limit: 5, min_similarity: 0.25}\<close> and it carries the error's message. So "run all"
  goes through all N iterations and ends (with its toast, and the running flag cleared),
  and the results map holds an entry under the id of every scenario; when every request
  fails, every such entry has status error.
\<close>

theorem C10_runSingleTest_never_throws:
  "status (fst (runSingleTest q rp w)) =
     (if failed rp \<or> \<not> wellFormed q then Error else Success)
   \<and> (failed rp \<or> \<not> wellFormed q \<longrightarrow>
        results_count (fst (runSingleTest q rp w)) = 0
        \<and> results (fst (runSingleTest q rp w)) = []
        \<and> duration_seconds (fst (runSingleTest q rp w)) =
            of_int (now (snd (runSingleTest q rp w)) - now w) / 1000
        \<and> config (fst (runSingleTest q rp w)) = \<lparr>limit = 5, min_similarity = 1 / 4\<rparr>
        \<and> error (fst (runSingleTest q rp w)) \<noteq> None)
   \<and> events (snd (handleRunAll net st w)) =
        events w
        @ concat (map (\<lambda>j. iteration_events (length (scenarios st)) j
                              (query_scenario (scenarios st ! j)))
                    [0..<length (scenarios st)])
        @ [completed_toast (length (scenarios st))]
   \<and> isRunningAll (fst (handleRunAll net st w)) = False
   \<and> (\<forall>s\<in>set (scenarios st).
        \<exists>r. map_get (resultsMap (fst (handleRunAll net st w))) (id_scenario s) = Some r
           \<and> ((\<forall>j<length (scenarios st). failed (net j (query_scenario (scenarios st ! j))))
                \<longrightarrow> status r = Error))"
proof -
  have entries: "\<exists>r. map_get (resultsMap (fst (handleRunAll net st w))) (id_scenario s) = Some r
           \<and> ((\<forall>j<length (scenarios st). failed (net j (query_scenario (scenarios st ! j))))
                \<longrightarrow> status r = Error)"
    if s: "s \<in> set (scenarios st)" for s
  proof -
    from s have ne: "scenarios st \<noteq> []" by auto
    from s have "id_scenario s \<in> set (map_keys (resultsMap (fst (handleRunAll net st w))))"
      by (simp add: handleRunAll_keys_set [OF ne])
    then obtain r where r: "map_get (resultsMap (fst (handleRunAll net st w))) (id_scenario s) = Some r"
      using map_get_Some_iff by fastforce
    then have "r \<in> set (map_values (resultsMap (fst (handleRunAll net st w))))"
      by (rule map_get_values)
    then have "(\<forall>j<length (scenarios st). failed (net j (query_scenario (scenarios st ! j))))
                \<longrightarrow> status r = Error"
      using handleRunAll_all_failed [OF ne] by blast
    with r show ?thesis by blast
  qed
  show ?thesis
    using runSingleTest_failed [of rp q w] entries
    by (simp add: runSingleTest_status handleRunAll_events handleRunAll_isRunningAll)
qed

theorem C10_runSingleTest_never_throws_witness:
  "failed (net_down 0 (str ''machine learning''))
   \<and> status (fst (runSingleTest (str ''machine learning'')
                    (net_down 0 (str ''machine learning'')) world_start)) = Error
   \<and> duration_seconds (fst (runSingleTest (str ''machine learning'')
                    (net_down 0 (str ''machine learning'')) world_start)) = 3 / 100
   \<and> list_all (\<lambda>j. failed (net_down j (query_scenario (scenarios initial_TestRetrieval ! j))))
         [0..<length (scenarios initial_TestRetrieval)]
   \<and> (\<exists>r. map_get (resultsMap (fst (handleRunAll net_down initial_TestRetrieval world_start)))
               (str ''3'') = Some r \<and> status r = Error)"
proof -
  have f: "failed (net_down j q)" for j q
    by (simp add: failed_def net_down_def)
  have n: "now (snd (runSingleTest (str ''machine learning'')
                    (net_down 0 (str ''machine learning'')) world_start)) - now world_start = 30"
    by (simp add: runSingleTest_def runSingleTest_try_def net_down_def world_start_def str_def
        isHighSurrogate_def isLowSurrogate_def)
  have third: "\<lparr>id_scenario = str ''3'', query_scenario = str ''apa pekerjaan Arifian?'',
                 expectedMatch = Some (str ''pekerjaan'')\<rparr> \<in> set (scenarios initial_TestRetrieval)"
    by (simp add: initial_TestRetrieval_def DEFAULT_SCENARIOS_def)
  note c = C10_runSingleTest_never_throws
    [where q = "str ''machine learning''" and rp = "net_down 0 (str ''machine learning'')"
       and w = world_start and net = net_down and st = initial_TestRetrieval]
  from c f have "status (fst (runSingleTest (str ''machine learning'')
                    (net_down 0 (str ''machine learning'')) world_start)) = Error"
    by simp
  moreover from c f n have "duration_seconds (fst (runSingleTest (str ''machine learning'')
                    (net_down 0 (str ''machine learning'')) world_start)) = 3 / 100"
    by simp
  moreover from c f have "\<forall>s\<in>set (scenarios initial_TestRetrieval).
        \<exists>r. map_get (resultsMap (fst (handleRunAll net_down initial_TestRetrieval world_start)))
               (id_scenario s) = Some r \<and> status r = Error"
    by simp
  from bspec [OF this third]
  have "\<exists>r. map_get (resultsMap (fst (handleRunAll net_down initial_TestRetrieval world_start)))
               (str ''3'') = Some r \<and> status r = Error"
    by simp
  ultimately show ?thesis using f by (simp add: list_all_iff)
qed

section \<open>Properties of the export\<close>

lemma read_results_export_data:
  "read_results (export_data toISO st w) =
   Some (map (\<lambda>(i, result). JObject ((str ''scenario_id'', JString i)
                                        # TestResult_properties toISO result))
             (resultsMap st))"
  by (simp add: read_results_def export_data_def str_def)

lemma read_scenario_id_entry:
  "read_string ''scenario_id'' (JObject ((str ''scenario_id'', JString i) # ps)) = Some i"
  by (simp add: read_string_def)

lemma read_results_count_entry:
  "read_number ''results_count''
     (JObject ((str ''scenario_id'', JString i) # TestResult_properties toISO r)) =
   Some (of_int (results_count r))"
  by (simp add: read_number_def TestResult_properties_def str_def)

lemma read_scenario_ids_export_data:
  "read_scenario_ids (export_data toISO st w) = map Some (map_keys (resultsMap st))"
  by (simp add: read_scenario_ids_def read_results_export_data map_keys_def
      case_prod_beta read_scenario_id_entry comp_def)

lemma read_results_counts_export_data:
  "read_results_counts (export_data toISO st w) =
   map (\<lambda>r. Some (of_int (results_count r))) (map_values (resultsMap st))"
  by (simp add: read_results_counts_def read_results_export_data map_values_def
      case_prod_beta read_results_count_entry comp_def)

lemma read_metrics_export_data:
  "read_metric ''total_tests'' (export_data toISO st w) =
     Some (of_nat (length (completedTests (resultsMap st))))"
  "read_metric ''successful'' (export_data toISO st w) =
     Some (of_nat (length (successfulTests (resultsMap st))))"
  "read_metric ''failed'' (export_data toISO st w) =
     Some (of_nat (length (failedTests (resultsMap st))))"
  "Fin (the (read_metric ''avg_duration'' (export_data toISO st w))) = avgDuration (resultsMap st)"
  "Fin (the (read_metric ''avg_score'' (export_data toISO st w))) = avgScore (resultsMap st)"
  "read_metric ''avg_duration'' (export_data toISO st w) \<noteq> None"
  "read_metric ''avg_score'' (export_data toISO st w) \<noteq> None"
  by (simp_all add: read_metric_def read_number_def export_data_def str_def
      number_json_def avgDuration_mean avgScore_mean)

text \<open>
  C5: the export issues no request (the only things it adds to the history are the
  download of the document and a toast), it leaves the state of the component as it is, and
  reading the exported document back gives, in the order of the results map, the scenario
  ids of the map and the result count of each entry, and as metrics the number of
  completed, successful and failed results and the two averages that the same render shows.
\<close>

theorem C5_export_round_trip:
  "fst (exportResults toISO st w) = st
   \<and> (\<exists>name. events (snd (exportResults toISO st w)) =
         events w @ [Downloaded name (export_data toISO st w),
                     Toasted (ToastSuccess (str ''Results exported''))])
   \<and> filter isRequest (events (snd (exportResults toISO st w))) = filter isRequest (events w)
   \<and> read_scenario_ids (export_data toISO st w) = map Some (map_keys (resultsMap st))
   \<and> read_results_counts (export_data toISO st w) =
       map (\<lambda>r. Some (of_int (results_count r))) (map_values (resultsMap st))
   \<and> read_metric ''total_tests'' (export_data toISO st w) =
       Some (of_nat (length (completedTests (resultsMap st))))
   \<and> read_metric ''successful'' (export_data toISO st w) =
       Some (of_nat (length (successfulTests (resultsMap st))))
   \<and> read_metric ''failed'' (export_data toISO st w) =
       Some (of_nat (length (failedTests (resultsMap st))))
   \<and> read_metric ''avg_duration'' (export_data toISO st w) \<noteq> None
   \<and> Fin (the (read_metric ''avg_duration'' (export_data toISO st w))) = avgDuration (resultsMap st)
   \<and> read_metric ''avg_score'' (export_data toISO st w) \<noteq> None
   \<and> Fin (the (read_metric ''avg_score'' (export_data toISO st w))) = avgScore (resultsMap st)"
  by (simp add: read_scenario_ids_export_data read_results_counts_export_data
      read_metrics_export_data)
     (simp add: exportResults_def Let_def isRequest_def)

theorem C5_export_round_trip_witness:
  "read_scenario_ids (export_data iso_sample (initial_TestRetrieval\<lparr>resultsMap := two_results\<rparr>)
      world_start) = [Some (str ''4''), Some (str ''5'')]
   \<and> read_results_counts (export_data iso_sample
        (initial_TestRetrieval\<lparr>resultsMap := two_results\<rparr>) world_start) = [Some 1, Some 0]
   \<and> read_metric ''total_tests'' (export_data iso_sample
        (initial_TestRetrieval\<lparr>resultsMap := two_results\<rparr>) world_start) = Some 2
   \<and> read_metric ''avg_score'' (export_data iso_sample
        (initial_TestRetrieval\<lparr>resultsMap := two_results\<rparr>) world_start) = Some (4 / 5)"
proof -
  have "read_metric ''avg_score'' (export_data iso_sample
        (initial_TestRetrieval\<lparr>resultsMap := two_results\<rparr>) world_start) = Some (4 / 5)"
    by (simp add: read_metric_def read_number_def export_data_def str_def number_json_def
        avgScore_mean successfulTests_def completedTests_def map_values_def
        two_results_def hit_result_def failed_result_def mean_def topScore_def)
  then show ?thesis
    using C5_export_round_trip
      [of iso_sample "initial_TestRetrieval\<lparr>resultsMap := two_results\<rparr>" world_start]
    by (simp add: map_keys_def map_values_def two_results_def hit_result_def failed_result_def
        completedTests_def)
qed

section \<open>Properties of the chat components\<close>

lemma dropWhile_all_iff: "(\<forall>x\<in>set (dropWhile P xs). P x) \<longleftrightarrow> (\<forall>x\<in>set xs. P x)"
  by (induction xs) auto

lemma trim_empty_iff: "trim s = [] \<longleftrightarrow> (\<forall>c\<in>set s. isWhiteSpace c)"
  by (simp add: trim_def dropWhile_eq_Nil_conv dropWhile_all_iff)

lemma sendMessage_try_failed:
  "failed rp \<longleftrightarrow> (\<exists>msg. sendMessage_try rp = Inl msg)"
  by (auto simp add: failed_def sendMessage_try_def split: fetch_outcome.splits body.splits)

lemma handleSubmit_try_failed:
  "failed_chat rp \<longleftrightarrow> (\<exists>msg. handleSubmit_try rp = Inl msg)"
  by (auto simp add: failed_chat_def handleSubmit_try_def split: fetch_outcome.splits body.splits)

text \<open>
  C4: in both chat components a submit with an input that is empty or consists of white
  space only, or while a request is in flight (\<open>isLoading\<close>), does nothing: the state,
  hence the transcript, and the history of requests are what they were.
\<close>

theorem C4_submit_noop:
  "((\<forall>c\<in>set (input st). isWhiteSpace c) \<or> isLoading st \<longrightarrow> sendMessage rp st w = (st, w))
   \<and> ((\<forall>c\<in>set (message cst). isWhiteSpace c) \<or> isLoading_chat cst
        \<longrightarrow> handleSubmit rp cst b = (cst, b))"
  by (auto simp add: sendMessage_def handleSubmit_def trim_empty_iff)

theorem C4_submit_noop_witness:
  "list_all isWhiteSpace (str ''  '')
   \<and> sendMessage net_answers (groq_start\<lparr>input := str ''  ''\<rparr>) world_start =
       (groq_start\<lparr>input := str ''  ''\<rparr>, world_start)
   \<and> isLoading_chat (chat_start\<lparr>isLoading_chat := True\<rparr>)
   \<and> handleSubmit net_answers (chat_start\<lparr>isLoading_chat := True\<rparr>) browser_start =
       (chat_start\<lparr>isLoading_chat := True\<rparr>, browser_start)"
proof -
  have ws: "\<forall>c\<in>set (input (groq_start\<lparr>input := str ''  ''\<rparr>)). isWhiteSpace c"
    by (simp add: str_def isWhiteSpace_def)
  have ld: "isLoading_chat (chat_start\<lparr>isLoading_chat := True\<rparr>)"
    by simp
  from C4_submit_noop [of "groq_start\<lparr>input := str ''  ''\<rparr>" net_answers world_start
      "chat_start\<lparr>isLoading_chat := True\<rparr>" browser_start] ws ld
  show ?thesis
    by (simp add: list_all_iff str_def isWhiteSpace_def)
qed

lemma sendMessage_failed:
  assumes "trim (input st) \<noteq> []" and "\<not> isLoading st" and "failed rp"
  shows "messages (fst (sendMessage rp st w)) = messages st"
    and "isLoading (fst (sendMessage rp st w)) = False"
    and "\<exists>body msg. events (snd (sendMessage rp st w)) =
           events w @ [Requested (str ''POST'') (str ''/chat'') body,
                       Toasted (ToastError (str ''Failed to send message: '' @ msg))]"
proof -
  from assms(3) obtain msg where "sendMessage_try rp = Inl msg"
    using sendMessage_try_failed by blast
  with assms(1,2)
  show "messages (fst (sendMessage rp st w)) = messages st"
    and "isLoading (fst (sendMessage rp st w)) = False"
    and "\<exists>body msg. events (snd (sendMessage rp st w)) =
           events w @ [Requested (str ''POST'') (str ''/chat'') body,
                       Toasted (ToastError (str ''Failed to send message: '' @ msg))]"
    by (simp_all add: sendMessage_def Let_def)
qed

lemma handleSubmit_failed:
  assumes "trim (message st) \<noteq> []" and "\<not> isLoading_chat st" and "failed_chat rp"
  shows "messages_chat (fst (handleSubmit rp st w)) =
           messages_chat st @ [\<lparr>id_message = toString (now w), type_message = User,
                                 content_message = trim (message st), timestamp_chat = now w,
                                 sources_message = None\<rparr>]"
    and "isLoading_chat (fst (handleSubmit rp st w)) = False"
    and "error_chat (fst (handleSubmit rp st w)) \<noteq> None"
proof -
  from assms(3) obtain msg where "handleSubmit_try rp = Inl msg"
    using handleSubmit_try_failed by blast
  with assms(1,2)
  show "messages_chat (fst (handleSubmit rp st w)) =
           messages_chat st @ [\<lparr>id_message = toString (now w), type_message = User,
                                 content_message = trim (message st), timestamp_chat = now w,
                                 sources_message = None\<rparr>]"
    and "isLoading_chat (fst (handleSubmit rp st w)) = False"
    and "error_chat (fst (handleSubmit rp st w)) \<noteq> None"
    by (simp_all add: handleSubmit_def Let_def)
qed

lemma trim_hi: "trim (str ''hi'') = str ''hi''"
  by (simp add: trim_def str_def isWhiteSpace_def)

lemma hi_not_empty: "str ''hi'' \<noteq> []"
  by (simp add: str_def)

text \<open>
  C3 (as stated): on a failed send \<open>Chat\<close> removes the user message that it has just
  added and \<open>GroqChat\<close> leaves it. The code does the opposite. The user types \<open>hi\<close>
  into an empty conversation and the fetch rejects: the transcript of \<open>Chat\<close> then holds
  that user message, and the transcript of \<open>GroqChat\<close> is empty again.
\<close>

theorem C3_rollback_is_in_GroqChat:
  "failed_chat net_rejects \<and> failed net_rejects
   \<and> messages_chat chat_start = []
   \<and> messages_chat (fst (handleSubmit net_rejects chat_start browser_start)) =
       [\<lparr>id_message = str ''1700000000000'', type_message = User, content_message = str ''hi'',
         timestamp_chat = 1700000000000, sources_message = None\<rparr>]
   \<and> messages groq_start = []
   \<and> messages (fst (sendMessage net_rejects groq_start world_start)) = []"
  by (simp add: failed_chat_def failed_def net_rejects_def handleSubmit_def handleSubmit_try_def
      sendMessage_def sendMessage_try_def chat_start_def initial_Chat_def groq_start_def
      browser_start_def world_start_def trim_hi hi_not_empty toString_world_start Let_def)

text \<open>
  C3 (amended): when a chat send fails, \<open>GroqChat\<close> (failure: the fetch rejects, the
  status is not 2xx, or the body does not parse) reports it with an error toast and rolls
  back by removing the user message that it has just added, so that the transcript is what
  it was before the submit; \<open>Chat\<close> (failure: the fetch rejects, the body does not parse,
  the body carries the error envelope, or the status is not 2xx) reports it in its error
  state and leaves the user message that it has just added in the transcript. Both clear
  the loading flag.
\<close>

theorem C3_failed_send:
  "(trim (input st) \<noteq> [] \<and> \<not> isLoading st \<and> failed rp \<longrightarrow>
      messages (fst (sendMessage rp st w)) = messages st
      \<and> isLoading (fst (sendMessage rp st w)) = False
      \<and> (\<exists>body msg. events (snd (sendMessage rp st w)) =
            events w @ [Requested (str ''POST'') (str ''/chat'') body,
                        Toasted (ToastError (str ''Failed to send message: '' @ msg))]))
   \<and> (trim (message cst) \<noteq> [] \<and> \<not> isLoading_chat cst \<and> failed_chat rp \<longrightarrow>
      messages_chat (fst (handleSubmit rp cst b)) =
        messages_chat cst @ [\<lparr>id_message = toString (now b), type_message = User,
                                content_message = trim (message cst), timestamp_chat = now b,
                                sources_message = None\<rparr>]
      \<and> isLoading_chat (fst (handleSubmit rp cst b)) = False
      \<and> error_chat (fst (handleSubmit rp cst b)) \<noteq> None)"
  using sendMessage_failed [of st rp w] handleSubmit_failed [of cst rp b]
  by blast

theorem C3_failed_send_witness:
  "trim (input groq_start) \<noteq> [] \<and> \<not> isLoading groq_start \<and> failed net_rejects
   \<and> messages (fst (sendMessage net_rejects groq_start world_start)) = messages groq_start
   \<and> trim (message chat_start) \<noteq> [] \<and> \<not> isLoading_chat chat_start \<and> failed_chat net_rejects
   \<and> length (messages_chat (fst (handleSubmit net_rejects chat_start browser_start))) =
       Suc (length (messages_chat chat_start))
   \<and> error_chat (fst (handleSubmit net_rejects chat_start browser_start)) \<noteq> None"
proof -
  have g: "trim (input groq_start) \<noteq> [] \<and> \<not> isLoading groq_start \<and> failed net_rejects"
    by (simp add: groq_start_def trim_hi hi_not_empty failed_def net_rejects_def)
  have c: "trim (message chat_start) \<noteq> [] \<and> \<not> isLoading_chat chat_start
           \<and> failed_chat net_rejects"
    by (simp add: chat_start_def initial_Chat_def trim_hi hi_not_empty failed_chat_def
        net_rejects_def)
  from C3_failed_send [of groq_start net_rejects world_start chat_start browser_start] g c
  show ?thesis by simp
qed

section \<open>The history of a chat request\<close>

lemma user_then_assistant_pair [simp]:
  "user_then_assistant (a, b) \<longleftrightarrow> type_message a = User \<and> type_message b = Assistant"
  by (simp add: user_then_assistant_def)

lemma turn_pair_pair [simp]:
  "turn_pair (a, b) = \<lparr>user = content_message a, assistant = content_message b\<rparr>"
  by (simp add: turn_pair_def)

lemma history_loop_pairs:
  "history_loop ms i h = h @ map turn_pair (filter user_then_assistant (pairs (drop i ms)))"
proof (induction ms i h rule: history_loop.induct)
  case (1 msgs i history)
  show ?case
  proof (cases "i < length msgs")
    case False
    then show ?thesis
      by (subst history_loop.simps) simp
  next
    case True
    note ih = 1 [OF True]
    show ?thesis
    proof (cases "i + 1 < length msgs")
      case False
      with True have "drop i msgs = [msgs ! i]" and "drop (i + 2) msgs = []"
        by (simp_all add: Cons_nth_drop_Suc [symmetric])
      with True False ih show ?thesis
        by (subst history_loop.simps) simp
    next
      case t: True
      have dr: "drop i msgs = msgs ! i # msgs ! (i + 1) # drop (i + 2) msgs"
        using True t by (simp add: Cons_nth_drop_Suc)
      show ?thesis
      proof (cases "type_message (msgs ! i) = User \<and> type_message (msgs ! (i + 1)) = Assistant")
        case ua: True
        from ih ua t
        have "history_loop msgs (i + 2)
                (history @ [\<lparr>user = content_message (msgs ! i),
                               assistant = content_message (msgs ! (i + 1))\<rparr>]) =
              (history @ [\<lparr>user = content_message (msgs ! i),
                               assistant = content_message (msgs ! (i + 1))\<rparr>])
              @ map turn_pair (filter user_then_assistant (pairs (drop (i + 2) msgs)))"
          by simp
        moreover have "history_loop msgs i history =
              history_loop msgs (i + 2)
                (history @ [\<lparr>user = content_message (msgs ! i),
                               assistant = content_message (msgs ! (i + 1))\<rparr>])"
          using True t ua by (subst history_loop.simps) simp
        ultimately show ?thesis
          using ua by (simp add: dr)
      next
        case nua: False
        from ih nua
        have "history_loop msgs (i + 2) history =
              history @ map turn_pair (filter user_then_assistant (pairs (drop (i + 2) msgs)))"
          by auto
        moreover have "history_loop msgs i history = history_loop msgs (i + 2) history"
          using True nua by (subst history_loop.simps) auto
        ultimately show ?thesis
          using nua by (simp add: dr)
      qed
    qed
  qed
qed

lemma length_pairs: "length (pairs xs) = length xs div 2"
  by (induction xs rule: pairs.induct) simp_all

lemma pairs_adjacent:
  "p \<in> set (pairs xs) \<Longrightarrow> \<exists>j. even j \<and> j + 1 < length xs \<and> xs ! j = fst p \<and> xs ! (j + 1) = snd p"
proof (induction xs rule: pairs.induct)
  case (1 a b xs)
  show ?case
  proof (cases "p = (a, b)")
    case True
    then have "even (0::nat) \<and> 0 + 1 < length (a # b # xs) \<and> (a # b # xs) ! 0 = fst p
               \<and> (a # b # xs) ! (0 + 1) = snd p"
      by simp
    then show ?thesis by blast
  next
    case False
    with 1 obtain j where "even j" "j + 1 < length xs" "xs ! j = fst p" "xs ! (j + 1) = snd p"
      by auto
    then have "even (j + 2) \<and> (j + 2) + 1 < length (a # b # xs) \<and> (a # b # xs) ! (j + 2) = fst p
               \<and> (a # b # xs) ! ((j + 2) + 1) = snd p"
      by simp
    then show ?thesis by blast
  qed
qed simp_all

lemma handleSubmit_events:
  "trim (message st) \<noteq> [] \<Longrightarrow> \<not> isLoading_chat st \<Longrightarrow>
   events (snd (handleSubmit rp st w)) =
   events w @ [Requested (str ''POST'') (str ''/chat'')
                 (JObject [(str ''message'', JString (trim (message st))),
                           (str ''history'',
                            JArray (map ChatHistoryItem_json
                                      (history_loop (messages_chat st) 0 [])))])]"
  by (simp add: handleSubmit_def Let_def save_effect_def split: sum.splits)

lemma sendMessage_events:
  "trim (input st) \<noteq> [] \<Longrightarrow> \<not> isLoading st \<Longrightarrow>
   take (Suc (length (events w))) (events (snd (sendMessage rp st w))) =
   events w @ [Requested (str ''POST'') (str ''/chat'')
                 (JObject [(str ''message'', JString (trim (input st))),
                           (str ''history'', JArray (history_groq (messages st)))])]"
  by (simp add: sendMessage_def Let_def split: sum.splits)

text \<open>A conversation of \<open>GroqChat\<close> after one answered message, and the next input.\<close>

lemma groq_talked:
  "fst (sendMessage net_answers groq_start world_start) =
     \<lparr>messages =
        [\<lparr>role = User, content = str ''hi'', sources = None, duration = None,
          apiDuration = None, timestamp_message = 1700000000000\<rparr>,
         \<lparr>role = Assistant, content = str ''hello'', sources = Some [], duration = Some 1,
          apiDuration = Some (1 / 2), timestamp_message = 1700000000900\<rparr>],
      input = [], isLoading = False, isHealthy = Some True,
      modelInfo = str ''llama-3.3-70b-versatile''\<rparr>"
  by (simp add: sendMessage_def sendMessage_try_def groq_start_def net_answers_def answer_def
      world_start_def trim_hi hi_not_empty ok_def Let_def)

text \<open>
  C8 (as stated): in either chat component every item of the history pairs a user turn
  with the assistant turn that follows it. Not in \<open>GroqChat\<close>: after the user's \<open>hi\<close>
  has been answered with \<open>hello\<close>, the next request carries a history of two items, one
  for each message, the first with a \<open>user\<close> property and no \<open>assistant\<close> property, the
  second with an \<open>assistant\<close> property and no \<open>user\<close> property.
\<close>

theorem C8_GroqChat_history_one_item_per_message:
  "events (snd (sendMessage net_answers
       ((fst (sendMessage net_answers groq_start world_start))\<lparr>input := str ''hi''\<rparr>)
       world_start)) =
     [Requested (str ''POST'') (str ''/chat'')
        (JObject [(str ''message'', JString (str ''hi'')),
                  (str ''history'',
                   JArray [JObject [(str ''user'', JString (str ''hi''))],
                           JObject [(str ''assistant'', JString (str ''hello''))]])])]
   \<and> member ''assistant'' (JObject [(str ''user'', JString (str ''hi''))]) = None
   \<and> member ''user'' (JObject [(str ''assistant'', JString (str ''hello''))]) = None"
proof -
  have "events (snd (sendMessage net_answers
       ((fst (sendMessage net_answers groq_start world_start))\<lparr>input := str ''hi''\<rparr>)
       world_start)) =
     [Requested (str ''POST'') (str ''/chat'')
        (JObject [(str ''message'', JString (str ''hi'')),
                  (str ''history'',
                   JArray [JObject [(str ''user'', JString (str ''hi''))],
                           JObject [(str ''assistant'', JString (str ''hello''))]])])]"
    by (simp add: groq_talked)
       (simp add: sendMessage_def sendMessage_try_def net_answers_def answer_def
        history_groq_def world_start_def trim_hi hi_not_empty ok_def Let_def)
  moreover have "member ''assistant'' (JObject [(str ''user'', JString (str ''hi''))]) = None"
    by (simp add: str_def)
  moreover have "member ''user'' (JObject [(str ''assistant'', JString (str ''hello''))]) = None"
    by (simp add: str_def)
  ultimately show ?thesis by blast
qed

text \<open>
  C8 (amended): for every chat submit that is not a no-op, the request body holds the
  trimmed input as \<open>message\<close> and a history computed from the transcript as it was before
  the submit, so without the message being submitted. In \<open>Chat\<close> the history pairs user
  and assistant turns: it has one item \<open>{user, assistant}\<close> for every pair of messages at
  positions (0,1), (2,3), \<dots> of the transcript whose first is a user message and whose
  second is an assistant message, in order, hence at most half as many items as the
  transcript has messages. In \<open>GroqChat\<close> the history has one item for every message of
  the transcript, in order, with the single property \<open>user\<close> or \<open>assistant\<close>. Neither
  component bounds the history otherwise.
\<close>

theorem C8_request_history:
  "(trim (message cst) \<noteq> [] \<and> \<not> isLoading_chat cst \<longrightarrow>
      events (snd (handleSubmit rp cst b)) =
        events b @ [Requested (str ''POST'') (str ''/chat'')
                      (JObject [(str ''message'', JString (trim (message cst))),
                                (str ''history'',
                                 JArray (map ChatHistoryItem_json
                                   (map turn_pair (filter user_then_assistant
                                      (pairs (messages_chat cst))))))])])
   \<and> length (map turn_pair (filter user_then_assistant (pairs (messages_chat cst))))
        \<le> length (messages_chat cst) div 2
   \<and> (\<forall>p\<in>set (pairs (messages_chat cst)).
         \<exists>j. even j \<and> j + 1 < length (messages_chat cst)
            \<and> messages_chat cst ! j = fst p \<and> messages_chat cst ! (j + 1) = snd p)
   \<and> (trim (input st) \<noteq> [] \<and> \<not> isLoading st \<longrightarrow>
        take (Suc (length (events w))) (events (snd (sendMessage rp st w))) =
          events w @ [Requested (str ''POST'') (str ''/chat'')
                        (JObject [(str ''message'', JString (trim (input st))),
                                  (str ''history'', JArray (history_groq (messages st)))])])
   \<and> length (history_groq (messages st)) = length (messages st)
   \<and> (\<forall>j<length (messages st).
         history_groq (messages st) ! j =
           JObject [(if role (messages st ! j) = User then str ''user'' else str ''assistant'',
                     JString (content (messages st ! j)))])"
proof -
  have "length (filter user_then_assistant (pairs (messages_chat cst)))
        \<le> length (messages_chat cst) div 2"
    using length_filter_le [of user_then_assistant "pairs (messages_chat cst)"]
    by (simp add: length_pairs)
  then show ?thesis
    using pairs_adjacent [of _ "messages_chat cst"]
    by (simp add: handleSubmit_events sendMessage_events history_loop_pairs history_groq_def)
qed

text \<open>A conversation of \<open>Chat\<close> after one answered message, and what the storage then holds.\<close>

lemma toString_answered: "toString (1700000000900 + 1) = str ''1700000000901''"
  by code_simp

lemma chat_talked:
  "fst (handleSubmit net_answers chat_start browser_start) =
     initial_Chat\<lparr>messages_chat :=
        [\<lparr>id_message = str ''1700000000000'', type_message = User,
          content_message = str ''hi'', timestamp_chat = 1700000000000,
          sources_message = None\<rparr>,
         \<lparr>id_message = str ''1700000000901'', type_message = Assistant,
          content_message = str ''hello'', timestamp_chat = 1700000000900,
          sources_message = Some []\<rparr>]\<rparr>"
  using toString_answered
  by (simp add: handleSubmit_def handleSubmit_try_def chat_start_def initial_Chat_def
      net_answers_def answer_def browser_start_def save_effect_def trim_hi hi_not_empty
      toString_world_start ok_def Let_def)

theorem C8_request_history_witness:
  "trim (message ((fst (handleSubmit net_answers chat_start browser_start))\<lparr>message := str ''hi''\<rparr>))
     \<noteq> []
   \<and> \<not> isLoading_chat
         ((fst (handleSubmit net_answers chat_start browser_start))\<lparr>message := str ''hi''\<rparr>)
   \<and> events (snd (handleSubmit net_answers
         ((fst (handleSubmit net_answers chat_start browser_start))\<lparr>message := str ''hi''\<rparr>)
         browser_start)) =
       [Requested (str ''POST'') (str ''/chat'')
          (JObject [(str ''message'', JString (str ''hi'')),
                    (str ''history'',
                     JArray [JObject [(str ''user'', JString (str ''hi'')),
                                      (str ''assistant'', JString (str ''hello''))]])])]"
proof -
  let ?st = "(fst (handleSubmit net_answers chat_start browser_start))\<lparr>message := str ''hi''\<rparr>"
  have h: "trim (message ?st) \<noteq> [] \<and> \<not> isLoading_chat ?st"
    by (simp add: chat_talked initial_Chat_def trim_hi hi_not_empty)
  have ev: "events browser_start = []"
    by (simp add: browser_start_def)
  from C8_request_history [of ?st net_answers browser_start] h
  show ?thesis
    by (simp add: ev) (simp add: chat_talked initial_Chat_def trim_hi ChatHistoryItem_json_def)
qed

section \<open>The stored transcript of Chat\<close>

lemma save_effect_storage:
  "localStorage (save_effect st w) =
     (if messages_chat st = [] then localStorage w
      else (localStorage w)(chatHistory \<mapsto> Transcript (messages_chat st)))"
  by (simp add: save_effect_def)

lemma mount_messages:
  "messages_chat (fst (mount w)) =
     (case localStorage w chatHistory of Some (Transcript ms) \<Rightarrow> ms | _ \<Rightarrow> [])"
  by (simp add: mount_def load_effect_def initial_Chat_def Let_def
      split: option.splits stored.splits)

lemma mount_storage: "localStorage (snd (mount w)) = localStorage w"
  by (auto simp add: mount_def load_effect_def initial_Chat_def Let_def save_effect_storage
      split: option.splits stored.splits)

lemma handleSubmit_storage:
  assumes "trim (message st) \<noteq> []" and "\<not> isLoading_chat st"
  shows "localStorage (snd (handleSubmit rp st w)) =
         (localStorage w)(chatHistory \<mapsto> Transcript (messages_chat (fst (handleSubmit rp st w))))"
  using assms
  by (simp add: handleSubmit_def Let_def save_effect_storage split: sum.splits)

lemma handleSubmit_reads_no_storage:
  "fst (handleSubmit rp st (w\<lparr>localStorage := ls\<rparr>)) = fst (handleSubmit rp st w)"
  by (simp add: handleSubmit_def Let_def save_effect_def split: sum.splits)

lemma confirmClearHistory_clears:
  "messages_chat (fst (confirmClearHistory st w)) = []"
  "localStorage (snd (confirmClearHistory st w)) = (localStorage w)(chatHistory := None)"
  by (simp_all add: confirmClearHistory_def Let_def save_effect_storage)

text \<open>
  C9: the transcript of \<open>Chat\<close> and the local-storage key \<open>chatHistory\<close> are kept in step.
  Mounting reads the key, restores the messages that it holds (none when the key is absent
  or its text does not parse) and leaves the storage as it is. A submit that is not a no-op
  never reads the storage, and after it, whether the send has succeeded or failed, the key
  holds the transcript as it then is; the effect that writes runs on every change of the
  transcript and writes when the transcript is not empty. Clearing the chat empties the
  transcript and removes the key. No other key is written, and mounting again after a
  submit or after a clear restores the transcript that the component had.
\<close>

theorem C9_chatHistory_key:
  "messages_chat (fst (mount b)) =
     (case localStorage b chatHistory of Some (Transcript ms) \<Rightarrow> ms | _ \<Rightarrow> [])
   \<and> localStorage (snd (mount b)) = localStorage b
   \<and> (trim (message st) \<noteq> [] \<and> \<not> isLoading_chat st \<longrightarrow>
        localStorage (snd (handleSubmit rp st b)) =
          (localStorage b)(chatHistory \<mapsto> Transcript (messages_chat (fst (handleSubmit rp st b))))
        \<and> messages_chat (fst (handleSubmit rp st b)) \<noteq> []
        \<and> messages_chat (fst (mount (snd (handleSubmit rp st b)))) =
            messages_chat (fst (handleSubmit rp st b)))
   \<and> fst (handleSubmit rp st (b\<lparr>localStorage := ls\<rparr>)) = fst (handleSubmit rp st b)
   \<and> messages_chat (fst (confirmClearHistory st b)) = []
   \<and> localStorage (snd (confirmClearHistory st b)) = (localStorage b)(chatHistory := None)
   \<and> messages_chat (fst (mount (snd (confirmClearHistory st b)))) = []"
proof -
  have ne: "messages_chat (fst (handleSubmit rp st b)) \<noteq> []"
    if "trim (message st) \<noteq> []" and "\<not> isLoading_chat st"
    using that by (simp add: handleSubmit_def Let_def split: sum.splits)
  show ?thesis
    using ne
    by (simp add: mount_messages mount_storage handleSubmit_storage
        handleSubmit_reads_no_storage confirmClearHistory_clears)
qed

theorem C9_chatHistory_key_witness:
  "trim (message chat_start) \<noteq> [] \<and> \<not> isLoading_chat chat_start
   \<and> localStorage (snd (handleSubmit net_answers chat_start browser_start)) chatHistory =
       Some (Transcript
        [\<lparr>id_message = str ''1700000000000'', type_message = User,
          content_message = str ''hi'', timestamp_chat = 1700000000000,
          sources_message = None\<rparr>,
         \<lparr>id_message = str ''1700000000901'', type_message = Assistant,
          content_message = str ''hello'', timestamp_chat = 1700000000900,
          sources_message = Some []\<rparr>])
   \<and> localStorage (snd (confirmClearHistory chat_start
        (snd (handleSubmit net_answers chat_start browser_start)))) chatHistory = None"
proof -
  have h: "trim (message chat_start) \<noteq> [] \<and> \<not> isLoading_chat chat_start"
    by (simp add: chat_start_def initial_Chat_def trim_hi hi_not_empty)
  from C9_chatHistory_key [of browser_start chat_start net_answers] h
  have "localStorage (snd (handleSubmit net_answers chat_start browser_start)) chatHistory =
          Some (Transcript (messages_chat (fst (handleSubmit net_answers chat_start browser_start))))"
    by simp
  moreover
  from C9_chatHistory_key
    [of "snd (handleSubmit net_answers chat_start browser_start)" chat_start net_answers]
  have "localStorage (snd (confirmClearHistory chat_start
        (snd (handleSubmit net_answers chat_start browser_start)))) chatHistory = None"
    by simp
  ultimately show ?thesis
    using h by (simp add: chat_talked)
qed

section \<open>Properties of the confession actions\<close>

lemma handleEdit_failed:
  "\<not> responded_ok rp \<Longrightarrow>
   (fst (handleEdit rp st w))\<lparr>actionLoading := actionLoading st\<rparr> = st
   \<and> filter isRefetch (events (snd (handleEdit rp st w))) = filter isRefetch (events w)"
  by (simp add: handleEdit_def Let_def isRefetch_def str_def split: option.splits)

lemma handleReply_failed:
  "\<not> responded_ok rp \<Longrightarrow>
   (fst (handleReply rp st w))\<lparr>actionLoading := actionLoading st\<rparr> = st
   \<and> filter isRefetch (events (snd (handleReply rp st w))) = filter isRefetch (events w)"
  by (simp add: handleReply_def Let_def isRefetch_def str_def split: option.splits)

lemma clickSaveChanges_failed:
  "\<not> responded_ok rp \<Longrightarrow>
   (fst (clickSaveChanges rp st w))\<lparr>actionLoading := actionLoading st\<rparr> = st
   \<and> filter isRefetch (events (snd (clickSaveChanges rp st w))) = filter isRefetch (events w)"
  using handleEdit_failed [of rp st w] by (auto simp add: clickSaveChanges_def)

lemma clickSendReply_failed:
  "\<not> responded_ok rp \<Longrightarrow>
   (fst (clickSendReply rp st w))\<lparr>actionLoading := actionLoading st\<rparr> = st
   \<and> filter isRefetch (events (snd (clickSendReply rp st w))) = filter isRefetch (events w)"
  using handleReply_failed [of rp st w] by (auto simp add: clickSendReply_def)

lemma clickDeleteReply_failed:
  "\<not> responded_ok rp \<Longrightarrow> \<not> actionLoading st \<Longrightarrow>
   (fst (clickDeleteReply rp st w))\<lparr>actionLoading := actionLoading st\<rparr> =
     st\<lparr>isDeleteReplyDialogOpen := False\<rparr>
   \<and> filter isRefetch (events (snd (clickDeleteReply rp st w))) = filter isRefetch (events w)"
  by (simp add: clickDeleteReply_def handleDeleteReply_start_def handleDeleteReply_settle_def
      isRefetch_def str_def split: option.splits)

lemma clickDelete_failed:
  "\<not> responded_ok rp \<Longrightarrow> \<not> actionLoading st \<Longrightarrow>
   (fst (clickDelete rp st w))\<lparr>actionLoading := actionLoading st\<rparr> =
     st\<lparr>isDeleteDialogOpen := False\<rparr>
   \<and> filter isRefetch (events (snd (clickDelete rp st w))) = filter isRefetch (events w)"
  by (simp add: clickDelete_def handleDelete_start_def handleDelete_settle_def
      isRefetch_def str_def split: option.splits)

lemma list_unmodifiedI:
  assumes "(fst r)\<lparr>actionLoading := a\<rparr> = st\<lparr>isDeleteDialogOpen := d, isDeleteReplyDialogOpen := e\<rparr>"
    and "filter isRefetch (events (snd r)) = filter isRefetch (events w)"
  shows "list_unmodified st w r"
proof -
  have g: "f (fst r) = f st"
    if "\<And>s x. f (s\<lparr>actionLoading := x\<rparr>) = f s"
      and "\<And>s x y. f (s\<lparr>isDeleteDialogOpen := x, isDeleteReplyDialogOpen := y\<rparr>) = f s"
    for f :: "Confessions \<Rightarrow> 'b"
    using that(1) [where s = "fst r" and x = a] that(2) [where s = st and x = d and y = e]
      assms(1)
    by simp
  show ?thesis
    unfolding list_unmodified_def
    using assms(2) g [of confessions] g [of stats] g [of loading] g [of selectedConfession]
      g [of replyText] g [of editedMessage] g [of filter_state]
    by simp
qed

text \<open>
  What a failed action leaves: each of the four leaves the list, the statistics, the
  selection and the texts and starts no refetch; the edit and the reply dialog stay as they
  were, and the two delete confirmations are closed by the click on their button.
\<close>

lemma failed_action_effects:
  assumes "\<not> responded_ok rp"
  shows "list_unmodified st w (clickSaveChanges rp st w)"
    and "isEditDialogOpen (fst (clickSaveChanges rp st w)) = isEditDialogOpen st"
    and "list_unmodified st w (clickSendReply rp st w)"
    and "isReplyDialogOpen (fst (clickSendReply rp st w)) = isReplyDialogOpen st"
    and "list_unmodified st w (clickDeleteReply rp st w)"
    and "\<not> actionLoading st \<Longrightarrow> \<not> isDeleteReplyDialogOpen (fst (clickDeleteReply rp st w))"
    and "list_unmodified st w (clickDelete rp st w)"
    and "\<not> actionLoading st \<Longrightarrow> \<not> isDeleteDialogOpen (fst (clickDelete rp st w))"
proof -
  have same: "st\<lparr>isDeleteDialogOpen := isDeleteDialogOpen st,
                 isDeleteReplyDialogOpen := isDeleteReplyDialogOpen st\<rparr> = st"
    by simp
  note e = clickSaveChanges_failed [OF assms, of st w]
  from e show "list_unmodified st w (clickSaveChanges rp st w)"
    by (intro list_unmodifiedI [where a = "actionLoading st" and d = "isDeleteDialogOpen st"
          and e = "isDeleteReplyDialogOpen st"]) (simp_all add: same)
  from e [THEN conjunct1, THEN arg_cong, where f = isEditDialogOpen]
  show "isEditDialogOpen (fst (clickSaveChanges rp st w)) = isEditDialogOpen st"
    by simp
  note r = clickSendReply_failed [OF assms, of st w]
  from r show "list_unmodified st w (clickSendReply rp st w)"
    by (intro list_unmodifiedI [where a = "actionLoading st" and d = "isDeleteDialogOpen st"
          and e = "isDeleteReplyDialogOpen st"]) (simp_all add: same)
  from r [THEN conjunct1, THEN arg_cong, where f = isReplyDialogOpen]
  show "isReplyDialogOpen (fst (clickSendReply rp st w)) = isReplyDialogOpen st"
    by simp
  show "list_unmodified st w (clickDeleteReply rp st w)"
  proof (cases "actionLoading st")
    case True
    then show ?thesis
      by (simp add: clickDeleteReply_def list_unmodified_def)
  next
    case False
    from clickDeleteReply_failed [OF assms False, of w] show ?thesis
      by (intro list_unmodifiedI [where a = "actionLoading st" and d = "isDeleteDialogOpen st"
            and e = False]) simp_all
  qed
  show "\<not> isDeleteReplyDialogOpen (fst (clickDeleteReply rp st w))" if "\<not> actionLoading st"
    using clickDeleteReply_failed [OF assms that, of w, THEN conjunct1, THEN arg_cong,
        where f = isDeleteReplyDialogOpen]
    by simp
  show "list_unmodified st w (clickDelete rp st w)"
  proof (cases "actionLoading st")
    case True
    then show ?thesis
      by (simp add: clickDelete_def list_unmodified_def)
  next
    case False
    have "st\<lparr>isDeleteDialogOpen := False\<rparr> =
          st\<lparr>isDeleteDialogOpen := False, isDeleteReplyDialogOpen := isDeleteReplyDialogOpen st\<rparr>"
      by simp
    with clickDelete_failed [OF assms False, of w] show ?thesis
      by (intro list_unmodifiedI [where a = "actionLoading st" and d = False
            and e = "isDeleteReplyDialogOpen st"]) simp_all
  qed
  show "\<not> isDeleteDialogOpen (fst (clickDelete rp st w))" if "\<not> actionLoading st"
    using clickDelete_failed [OF assms that, of w, THEN conjunct1, THEN arg_cong,
        where f = isDeleteDialogOpen]
    by simp
qed

text \<open>
  C6 says that after a failed backend call of any mutating confession action the list is
  unmodified and the action's dialog remains open. The code keeps the list in all four
  actions and keeps the dialog open for edit and reply, but not for delete and delete
  reply: with the delete dialog open on a displayed confession, the user confirms and
  \<open>DELETE /confessions/a1\<close> answers 500; the list is as it was, the error toast is shown,
  and the dialog is closed, by the click on its \<open>AlertDialogAction\<close>. The same happens to
  the delete-reply dialog.
\<close>

theorem C6_failed_delete_closes_dialog:
  "\<not> responded_ok net_500
   \<and> isDeleteDialogOpen (openDeleteDialog confession_a confessions_shown)
   \<and> confessions (fst (clickDelete net_500
         (openDeleteDialog confession_a confessions_shown) world_start)) =
       [confession_a, confession_b]
   \<and> events (snd (clickDelete net_500
         (openDeleteDialog confession_a confessions_shown) world_start)) =
       [Requested (str ''DELETE'') (str ''/confessions/'' @ str ''a1'') JNull,
        Toasted (ToastError (str ''Failed to delete confession''))]
   \<and> \<not> isDeleteDialogOpen (fst (clickDelete net_500
         (openDeleteDialog confession_a confessions_shown) world_start))
   \<and> isDeleteReplyDialogOpen (openDeleteReplyDialog confession_b confessions_shown)
   \<and> confessions (fst (clickDeleteReply net_500
         (openDeleteReplyDialog confession_b confessions_shown) world_start)) =
       [confession_a, confession_b]
   \<and> \<not> isDeleteReplyDialogOpen (fst (clickDeleteReply net_500
         (openDeleteReplyDialog confession_b confessions_shown) world_start))"
  by (simp add: responded_ok_def net_500_def ok_def clickDelete_def clickDeleteReply_def
      handleDelete_start_def handleDelete_settle_def handleDeleteReply_start_def
      handleDeleteReply_settle_def openDeleteDialog_def openDeleteReplyDialog_def
      confessions_shown_def world_start_def)
     (simp add: confession_a_def)

section \<open>Deleting a confession\<close>

lemma length_filter_other_ids:
  "distinct (map f xs) \<Longrightarrow> x \<in> f ` set xs \<Longrightarrow>
   length (filter (\<lambda>y. f y \<noteq> x) xs) = length xs - 1"
proof (induction xs)
  case Nil
  then show ?case by simp
next
  case (Cons a xs)
  show ?case
  proof (cases "f a = x")
    case True
    with Cons.prems have "x \<notin> f ` set xs"
      by simp
    then have "\<forall>y\<in>set xs. f y \<noteq> x"
      by (metis imageI)
    then have "filter (\<lambda>y. f y \<noteq> x) xs = xs"
      by (simp add: filter_id_conv)
    with True show ?thesis by simp
  next
    case False
    with Cons.prems have x: "x \<in> f ` set xs"
      by auto
    moreover from Cons.prems x have "length (filter (\<lambda>y. f y \<noteq> x) xs) = length xs - 1"
      by (simp add: Cons.IH)
    moreover from x have "0 < length xs"
      by (cases xs) auto
    ultimately show ?thesis using False by simp
  qed
qed

lemma backend_delete_removes:
  "i \<notin> id_confession ` set (backend_list flt (backend_delete i db))"
  by (auto simp add: backend_list_def backend_delete_def)

lemma get_json_replies_with: "get_json msg (replies_with data) = Inr data"
  by (simp add: get_json_def replies_with_def ok_def)

lemma responded_ok_replies_with: "responded_ok (replies_with data)"
  by (simp add: responded_ok_def replies_with_def ok_def)

lemma confessions_path_not_stats: "confessions_path flt \<noteq> str ''/confessions/stats/summary''"
  by (simp add: confessions_path_def str_def)

lemma backend_serve_delete:
  "i \<in> id_confession ` set db \<Longrightarrow>
   backend_serve (Requested (str ''DELETE'') (str ''/confessions/'' @ i) JNull) db =
     (Deleted, backend_delete i db)"
proof -
  assume "i \<in> id_confession ` set db"
  then have "\<exists>c\<in>set db. i = id_confession c"
    by blast
  moreover have "filter (\<lambda>c. i \<noteq> id_confession c) db = backend_delete i db"
    by (simp add: backend_delete_def) (metis (lifting))
  ultimately show ?thesis
    by (simp add: backend_serve_def)
qed

lemma backend_serve_list:
  "backend_serve (Requested (str ''GET'') (confessions_path flt) JNull) db =
     (Listed (backend_list flt db), db)"
proof -
  have m: "str ''GET'' \<noteq> str ''DELETE''"
    by (simp add: str_def)
  consider "flt = str ''all''" | "flt \<noteq> str ''all''" "flt = str ''replied''"
    | "flt \<noteq> str ''all''" "flt \<noteq> str ''replied''"
    by blast
  then show ?thesis
  proof cases
    case 1
    have "confessions_path flt = str ''/confessions/''"
      using 1 by (simp add: confessions_path_def)
    moreover have "str ''/confessions/'' \<noteq> str ''/confessions/stats/summary''"
      by (simp add: str_def)
    ultimately show ?thesis
      using 1 m by (simp add: backend_serve_def backend_list_def)
  next
    case 2
    have "confessions_path flt = str ''/confessions/?is_replied=true''"
      using 2 by (simp add: confessions_path_def) (simp add: str_def)
    moreover have "str ''/confessions/?is_replied=true'' \<noteq> str ''/confessions/stats/summary''"
      and "str ''/confessions/?is_replied=true'' \<noteq> str ''/confessions/''"
      by (simp_all add: str_def)
    ultimately show ?thesis
      using 2 m by (simp add: backend_serve_def backend_list_def)
  next
    case 3
    have "confessions_path flt = str ''/confessions/?is_replied=false''"
      using 3 by (simp add: confessions_path_def) (simp add: str_def)
    moreover have "str ''/confessions/?is_replied=false'' \<noteq> str ''/confessions/stats/summary''"
      and "str ''/confessions/?is_replied=false'' \<noteq> str ''/confessions/''"
      and "str ''/confessions/?is_replied=false'' \<noteq> str ''/confessions/?is_replied=true''"
      by (simp_all add: str_def)
    ultimately show ?thesis
      using 3 m by (simp add: backend_serve_def backend_list_def)
  qed
qed

lemma backend_serve_stats:
  "backend_serve (Requested (str ''GET'') (str ''/confessions/stats/summary'') JNull) db =
     (Summary (backend_stats db), db)"
proof -
  have "str ''GET'' \<noteq> str ''DELETE''"
    by (simp add: str_def)
  then show ?thesis
    by (simp add: backend_serve_def)
qed

lemma issued_appended: "issued w (w\<lparr>events := events w @ es\<rparr>) = es"
  by (simp add: issued_def)

lemma settle_refetch_list:
  "settle_refetch db (Requested (str ''GET'') (confessions_path flt) JNull) sw =
     ((fst sw)\<lparr>confessions := backend_list flt db, loading := False\<rparr>, snd sw)"
  by (simp add: settle_refetch_def confessions_path_not_stats backend_serve_list list_reply_def
      fetchConfessions_settle_def get_json_replies_with)

lemma settle_refetch_stats:
  "settle_refetch db (Requested (str ''GET'') (str ''/confessions/stats/summary'') JNull) sw =
     ((fst sw)\<lparr>stats := backend_stats db\<rparr>, snd sw)"
  by (simp add: settle_refetch_def backend_serve_stats stats_reply_def
      fetchStats_settle_def get_json_replies_with)

lemma handleDelete_settle_ok:
  "responded_ok rp \<Longrightarrow>
   handleDelete_settle rp st1 w1 =
     (st1\<lparr>isDeleteDialogOpen := False, selectedConfession := None, loading := True,
          actionLoading := False\<rparr>,
      w1\<lparr>events := events w1 @
           [Toasted (ToastSuccess (str ''Confession deleted successfully'')),
            Requested (str ''GET'') (confessions_path (filter_state st1)) JNull,
            Requested (str ''GET'') (str ''/confessions/stats/summary'') JNull]\<rparr>)"
  by (simp add: handleDelete_settle_def fetchConfessions_start_def fetchStats_start_def Let_def)

lemma delete_with_backend_result:
  assumes "selectedConfession st = Some c" and "\<not> actionLoading st"
    and "id_confession c \<in> id_confession ` set db"
  shows "fst (delete_with_backend stats_first db st w) =
         st\<lparr>isDeleteDialogOpen := False, selectedConfession := None, loading := False,
            confessions := backend_list (filter_state st) (backend_delete (id_confession c) db),
            stats := backend_stats (backend_delete (id_confession c) db)\<rparr>"
    and "events (snd (delete_with_backend stats_first db st w)) =
         events w @
           [Requested (str ''DELETE'') (str ''/confessions/'' @ id_confession c) JNull,
            Toasted (ToastSuccess (str ''Confession deleted successfully'')),
            Requested (str ''GET'') (confessions_path (filter_state st)) JNull,
            Requested (str ''GET'') (str ''/confessions/stats/summary'') JNull]"
proof -
  have st: "handleDelete_start st w =
        Some (st\<lparr>actionLoading := True\<rparr>,
              w\<lparr>events := events w @
                   [Requested (str ''DELETE'') (str ''/confessions/'' @ id_confession c) JNull]\<rparr>)"
    using assms(1) by (simp add: handleDelete_start_def)
  have r: "delete_with_backend stats_first db st w =
        fold (settle_refetch (backend_delete (id_confession c) db))
          (if stats_first
           then [Requested (str ''GET'') (str ''/confessions/stats/summary'') JNull,
                 Requested (str ''GET'') (confessions_path (filter_state st)) JNull]
           else [Requested (str ''GET'') (confessions_path (filter_state st)) JNull,
                 Requested (str ''GET'') (str ''/confessions/stats/summary'') JNull])
          (st\<lparr>isDeleteDialogOpen := False, selectedConfession := None, loading := True,
               actionLoading := False\<rparr>,
           w\<lparr>events := events w @
                [Requested (str ''DELETE'') (str ''/confessions/'' @ id_confession c) JNull,
                 Toasted (ToastSuccess (str ''Confession deleted successfully'')),
                 Requested (str ''GET'') (confessions_path (filter_state st)) JNull,
                 Requested (str ''GET'') (str ''/confessions/stats/summary'') JNull]\<rparr>)"
    using assms(2)
    by (simp add: delete_with_backend_def st issued_appended backend_serve_delete [OF assms(3)]
        delete_reply_def handleDelete_settle_ok responded_ok_replies_with issued_def
        isRefetch_def Let_def)
  show "fst (delete_with_backend stats_first db st w) =
         st\<lparr>isDeleteDialogOpen := False, selectedConfession := None, loading := False,
            confessions := backend_list (filter_state st) (backend_delete (id_confession c) db),
            stats := backend_stats (backend_delete (id_confession c) db)\<rparr>"
    using assms(2)
    by (intro Confessions.equality) (simp_all add: r settle_refetch_list settle_refetch_stats)
  show "events (snd (delete_with_backend stats_first db st w)) =
         events w @
           [Requested (str ''DELETE'') (str ''/confessions/'' @ id_confession c) JNull,
            Toasted (ToastSuccess (str ''Confession deleted successfully'')),
            Requested (str ''GET'') (confessions_path (filter_state st)) JNull,
            Requested (str ''GET'') (str ''/confessions/stats/summary'') JNull]"
    by (simp add: r settle_refetch_list settle_refetch_stats)
qed

lemma shown_without_stats:
  "shown_without_stats =
     initial_Confessions\<lparr>confessions := [confession_a, confession_b], loading := False\<rparr>"
  by (simp add: shown_without_stats_def fetchConfessions_settle_def fetchStats_settle_def
      get_json_replies_with)
     (simp add: get_json_def stats_down_def)

lemma sample_ids: "id_confession confession_a \<noteq> id_confession confession_b"
  by (simp add: confession_a_def confession_b_def str_def)

text \<open>
  C7 (as stated): for every confession of the displayed list, after a successful delete
  and its refetches the total of the statistics is one less than before the delete. Not
  when the displayed total was not the backend's: the component has mounted, the list has
  arrived and the request for the statistics has failed, so the card shows the initial
  total 0 over a list of two. The first confession is deleted, the backend answering every
  request. It is gone from the list, and the total is then 1, which is not 0 minus one.
\<close>

theorem C7_total_not_one_less_when_stats_were_not_loaded:
  "confession_a \<in> set (confessions shown_without_stats)
   \<and> total (stats shown_without_stats) = 0
   \<and> confessions (fst (delete_with_backend False [confession_a, confession_b]
        (openDeleteDialog confession_a shown_without_stats) world_start)) = [confession_b]
   \<and> total (stats (fst (delete_with_backend False [confession_a, confession_b]
        (openDeleteDialog confession_a shown_without_stats) world_start))) = 1
   \<and> total (stats (fst (delete_with_backend False [confession_a, confession_b]
        (openDeleteDialog confession_a shown_without_stats) world_start)))
       \<noteq> total (stats shown_without_stats) - 1"
proof -
  let ?st = "openDeleteDialog confession_a shown_without_stats"
  have s: "selectedConfession ?st = Some confession_a" and a: "\<not> actionLoading ?st"
    and f: "filter_state ?st = str ''all''"
    by (simp_all add: openDeleteDialog_def shown_without_stats initial_Confessions_def)
  have i: "id_confession confession_a \<in> id_confession ` set [confession_a, confession_b]"
    by simp
  have d: "backend_delete (id_confession confession_a) [confession_a, confession_b] = [confession_b]"
    using sample_ids by (simp add: backend_delete_def)
  show ?thesis
    by (simp add: delete_with_backend_result(1) [OF s a i] d f backend_list_def
        backend_stats_def)
       (simp add: shown_without_stats initial_Confessions_def)
qed

text \<open>
  C7 (amended): a confession of the displayed list is selected for deletion, the backend
  holds a record with its id, the ids of the backend's records are pairwise distinct, and
  the displayed total is the number of the backend's records. The user confirms; the
  request that leaves is the \<open>DELETE\<close> of that id, the backend removes the record, and the
  handler starts the refetch of the list and of the statistics. When these have been
  answered, in whichever order, the deleted confession is not in the displayed list (no
  entry has its id), the list is the backend's for the current filter, and the total of
  the statistics is the total displayed before the delete minus one.
\<close>

theorem C7_delete_then_refetch:
  assumes "c \<in> set (confessions st)"
    and "\<not> actionLoading st"
    and "id_confession c \<in> id_confession ` set db"
    and "distinct (map id_confession db)"
    and "total (stats st) = int (length db)"
  shows "events (snd (delete_with_backend stats_first db (openDeleteDialog c st) w)) =
           events w @
             [Requested (str ''DELETE'') (str ''/confessions/'' @ id_confession c) JNull,
              Toasted (ToastSuccess (str ''Confession deleted successfully'')),
              Requested (str ''GET'') (confessions_path (filter_state st)) JNull,
              Requested (str ''GET'') (str ''/confessions/stats/summary'') JNull]
       \<and> c \<notin> set (confessions (fst (delete_with_backend stats_first db (openDeleteDialog c st) w)))
       \<and> id_confession c \<notin> id_confession `
           set (confessions (fst (delete_with_backend stats_first db (openDeleteDialog c st) w)))
       \<and> confessions (fst (delete_with_backend stats_first db (openDeleteDialog c st) w)) =
           backend_list (filter_state st) (backend_delete (id_confession c) db)
       \<and> total (stats (fst (delete_with_backend stats_first db (openDeleteDialog c st) w))) =
           total (stats st) - 1
       \<and> \<not> isDeleteDialogOpen (fst (delete_with_backend stats_first db (openDeleteDialog c st) w))"
proof -
  let ?st = "openDeleteDialog c st"
  let ?r = "delete_with_backend stats_first db ?st w"
  have s: "selectedConfession ?st = Some c" and a: "\<not> actionLoading ?st"
    and f: "filter_state ?st = filter_state st"
    using assms(2) by (simp_all add: openDeleteDialog_def)
  note res = delete_with_backend_result [OF s a assms(3), of stats_first w]
  have ev: "events (snd ?r) =
           events w @
             [Requested (str ''DELETE'') (str ''/confessions/'' @ id_confession c) JNull,
              Toasted (ToastSuccess (str ''Confession deleted successfully'')),
              Requested (str ''GET'') (confessions_path (filter_state st)) JNull,
              Requested (str ''GET'') (str ''/confessions/stats/summary'') JNull]"
    by (simp add: res(2) f)
  have l: "confessions (fst ?r) =
           backend_list (filter_state st) (backend_delete (id_confession c) db)"
    by (simp add: res(1) f)
  have gone: "id_confession c \<notin> id_confession ` set (confessions (fst ?r))"
    by (simp only: l backend_delete_removes not_False_eq_True)
  then have gone': "c \<notin> set (confessions (fst ?r))"
    by blast
  from assms(3,4) have "length (backend_delete (id_confession c) db) = length db - 1"
    and "0 < length db"
    by (auto simp add: backend_delete_def length_filter_other_ids)
  then have "int (length (backend_delete (id_confession c) db)) = int (length db) - 1"
    by linarith
  then have t: "total (stats (fst ?r)) = total (stats st) - 1"
    by (simp add: res(1) assms(5) backend_stats_def)
  have d: "\<not> isDeleteDialogOpen (fst ?r)"
    by (simp add: res(1))
  from ev gone' gone l t d show ?thesis by blast
qed

theorem C7_delete_then_refetch_witness:
  "confession_a \<in> set (confessions confessions_shown)
   \<and> \<not> actionLoading confessions_shown
   \<and> id_confession confession_a \<in> id_confession ` set [confession_a, confession_b]
   \<and> distinct (map id_confession [confession_a, confession_b])
   \<and> total (stats confessions_shown) = int (length [confession_a, confession_b])
   \<and> confessions (fst (delete_with_backend True [confession_a, confession_b]
        (openDeleteDialog confession_a confessions_shown) world_start)) = [confession_b]
   \<and> total (stats (fst (delete_with_backend True [confession_a, confession_b]
        (openDeleteDialog confession_a confessions_shown) world_start))) = 1
   \<and> confessions (fst (delete_with_backend False [confession_a, confession_b]
        (openDeleteDialog confession_a confessions_shown) world_start)) = [confession_b]
   \<and> total (stats (fst (delete_with_backend False [confession_a, confession_b]
        (openDeleteDialog confession_a confessions_shown) world_start))) = 1"
proof -
  let ?db = "[confession_a, confession_b]"
  have h1: "confession_a \<in> set (confessions confessions_shown)"
    and h2: "\<not> actionLoading confessions_shown"
    and h5: "total (stats confessions_shown) = int (length ?db)"
    and fs: "filter_state confessions_shown = str ''all''"
    by (simp_all add: confessions_shown_def)
  have h3: "id_confession confession_a \<in> id_confession ` set ?db"
    by simp
  have h4: "distinct (map id_confession ?db)"
    using sample_ids by simp
  have del: "backend_list (str ''all'') (backend_delete (id_confession confession_a) ?db) =
             [confession_b]"
    using sample_ids by (simp add: backend_list_def backend_delete_def)
  from C7_delete_then_refetch [OF h1 h2 h3 h4 h5, of True world_start]
    C7_delete_then_refetch [OF h1 h2 h3 h4 h5, of False world_start]
  show ?thesis
    using h1 h2 h3 h4 h5 by (simp add: fs del)
qed

end
